theory Spec2Isabelle
  imports Main "HOL-Library.Multiset" "HOL-Library.Sublist"
begin

section \<open>The Hyper-V security groups driver\<close>

text \<open>
  A shallow embedding of \<^verbatim>\<open>hyperv/neutron/security_groups_driver.py\<close>. Python names
  that start with an underscore lose it (\<^verbatim>\<open>_add_sg_port_rules\<close> is
  \<open>add_sg_port_rules\<close>); the port key \<^verbatim>\<open>'id'\<close> is the field \<open>port_id\<close>.
\<close>

subsection \<open>Values\<close>

type_synonym port_id = string
type_synonym sg_id = string

text \<open>
  Exceptions that the module can raise or let through. \<open>ProviderError e\<close> is whatever
  \<^verbatim>\<open>create_security_rules\<close> or \<^verbatim>\<open>remove_security_rules\<close> of the utilities object raised,
  \<open>AddrFormatError\<close> is netaddr's refusal of a member address.
\<close>

datatype error = KeyError | TypeError | ValueError | AddrFormatError | ProviderError string

text \<open>
  A security group rule as the agent receives it: a Python dict. The record holds the
  keys that the driver reads or writes; \<open>None\<close> is an absent key. The keys
  \<^verbatim>\<open>'direction'\<close> and \<^verbatim>\<open>'ethertype'\<close> are read with \<^verbatim>\<open>rule['...']\<close> and are always there.
\<close>

record rule_dict =
  direction :: string
  ethertype :: string
  protocol :: "string option"
  port_range_min :: "int option"
  port_range_max :: "int option"
  remote_group_id :: "string option"
  source_ip_prefix :: "string option"
  dest_ip_prefix :: "string option"
  security_group_id :: "string option"

text \<open>
  \<^verbatim>\<open>SecurityGroupRuleR2\<close>: the attributes set by \<^verbatim>\<open>__init__\<close> and the two class
  attributes \<^verbatim>\<open>IdleSessionTimeout\<close> and \<^verbatim>\<open>Weight\<close>. \<open>cached_hash\<close> is
  \<^verbatim>\<open>_cached_hash\<close>; it holds the tuple that \<^verbatim>\<open>__init__\<close> hashes, which stands for the
  hash: equal tuples have equal hashes.
\<close>

record sg_rule =
  Direction :: int
  Action :: int
  LocalPort :: string
  Protocol :: string
  RemoteIPAddress :: string
  Stateful :: bool
  IdleSessionTimeout :: int
  Weight :: int
  cached_hash :: "int \<times> int \<times> string \<times> string \<times> string"

text \<open>
  The port description. \<^verbatim>\<open>'security_groups'\<close> and \<^verbatim>\<open>'fixed_ips'\<close> are read with
  \<^verbatim>\<open>port.get(key, [])\<close>, the other keys with \<^verbatim>\<open>port[key]\<close>.
  \<^verbatim>\<open>'security_group_rules'\<close> holds the provider rules of the port.
\<close>

record port =
  port_id :: port_id
  device :: string
  fixed_ips :: "string list option"
  security_groups :: "sg_id list option"
  security_group_rules :: "rule_dict list"

text \<open>
  The lists kept in \<^verbatim>\<open>_sec_group_rules\<close> hold objects of both kinds: the driver
  extends them with \<^verbatim>\<open>SecurityGroupRuleR2\<close> objects and assigns lists of rule dicts.
\<close>

datatype entry = AbstractRule rule_dict | ConcreteRule sg_rule

text \<open>The calls made on the utilities object, in the order they are made.\<close>

datatype provider_call =
  CreateRules port_id "sg_rule list"
| RemoveRules port_id "sg_rule list"

text \<open>
  \<^verbatim>\<open>os_win\<close>'s \<^verbatim>\<open>NetworkUtils\<close> is not part of this module. The record holds what the
  driver uses of it: the class constants that \<^verbatim>\<open>ACL_PROP_MAP\<close> is built from, and the
  outcome of the two calls, which may depend on the calls made so far: \<open>None\<close> when
  the call returns, \<open>Some e\<close> when it raises \<open>e\<close>.
\<close>

record networkutils =
  ACL_DIR_IN :: int
  ACL_DIR_OUT :: int
  ACL_TYPE_IPV4 :: int
  ACL_TYPE_IPV6 :: int
  TCP_PROTOCOL :: string
  UDP_PROTOCOL :: string
  ICMP_PROTOCOL :: string
  ICMPV6_PROTOCOL :: string
  ACL_ACTION_ALLOW :: int
  ACL_ACTION_DENY :: int
  create_security_rules :: "provider_call list \<Rightarrow> port_id \<Rightarrow> sg_rule list \<Rightarrow> string option"
  remove_security_rules :: "provider_call list \<Rightarrow> port_id \<Rightarrow> sg_rule list \<Rightarrow> string option"

text \<open>
  The attributes of \<^verbatim>\<open>HyperVSecurityGroupsDriverMixin\<close>, and \<open>provider_calls\<close>, the
  history of the calls made on \<^verbatim>\<open>self._utils\<close>.
\<close>

record driver =
  sec_group_rules :: "port_id \<rightharpoonup> entry list"
  security_ports :: "string \<rightharpoonup> port"
  sg_members :: "sg_id \<rightharpoonup> (string \<rightharpoonup> string list)"
  sg_rule_templates :: "sg_id \<rightharpoonup> rule_dict list"
  provider_calls :: "provider_call list"

subsection \<open>Module constants\<close>

definition INGRESS_DIRECTION :: string where
  "INGRESS_DIRECTION = ''ingress''"

definition EGRESS_DIRECTION :: string where
  "EGRESS_DIRECTION = ''egress''"

definition DIRECTION_IP_PREFIX :: "(string \<times> string) list" where
  "DIRECTION_IP_PREFIX = [(''ingress'', ''source_ip_prefix''), (''egress'', ''dest_ip_prefix'')]"

text \<open>
  \<^verbatim>\<open>ACL_PROP_MAP\<close>, one definition per key. The dicts are association lists in the
  order of the dict literal, which is the order \<^verbatim>\<open>values()\<close> and \<^verbatim>\<open>iterkeys()\<close> are
  taken to follow.
\<close>

definition ACL_PROP_MAP_direction :: "networkutils \<Rightarrow> (string \<times> int) list" where
  "ACL_PROP_MAP_direction U = [(''ingress'', ACL_DIR_IN U), (''egress'', ACL_DIR_OUT U)]"

definition ACL_PROP_MAP_ethertype :: "networkutils \<Rightarrow> (string \<times> int) list" where
  "ACL_PROP_MAP_ethertype U = [(''IPv4'', ACL_TYPE_IPV4 U), (''IPv6'', ACL_TYPE_IPV6 U)]"

definition ACL_PROP_MAP_protocol :: "networkutils \<Rightarrow> (string \<times> string) list" where
  "ACL_PROP_MAP_protocol U =
     [(''tcp'', TCP_PROTOCOL U), (''udp'', UDP_PROTOCOL U),
      (''icmp'', ICMP_PROTOCOL U), (''ipv6-icmp'', ICMPV6_PROTOCOL U)]"

definition ACL_PROP_MAP_action :: "networkutils \<Rightarrow> (string \<times> int) list" where
  "ACL_PROP_MAP_action U = [(''allow'', ACL_ACTION_ALLOW U), (''deny'', ACL_ACTION_DENY U)]"

definition ACL_PROP_MAP_default :: string where
  "ACL_PROP_MAP_default = ''ANY''"

definition ACL_PROP_MAP_address_default :: "(string \<times> string) list" where
  "ACL_PROP_MAP_address_default = [(''IPv4'', ''0.0.0.0/0''), (''IPv6'', ''::/0'')]"

subsection \<open>Python built-ins used by the module\<close>

text \<open>\<^verbatim>\<open>d[k]\<close> on a dict: the value, or \<^verbatim>\<open>KeyError\<close>.\<close>

definition getitem :: "('k \<times> 'v) list \<Rightarrow> 'k \<Rightarrow> error + 'v" where
  "getitem d k = (case map_of d k of None \<Rightarrow> Inl KeyError | Some v \<Rightarrow> Inr v)"

text \<open>\<^verbatim>\<open>str\<close> of an integer, for \<^verbatim>\<open>'%s-%s'\<close>.\<close>

fun str_nat :: "nat \<Rightarrow> string" where
  "str_nat n =
     (if n < 10 then [''0123456789'' ! n]
      else str_nat (n div 10) @ [''0123456789'' ! (n mod 10)])"

declare str_nat.simps [simp del]

definition str_int :: "int \<Rightarrow> string" where
  "str_int i = (if i < 0 then CHR ''-'' # str_nat (nat (- i)) else str_nat (nat i))"

text \<open>\<^verbatim>\<open>s.split(sep, 1)[0]\<close> for a non-empty \<open>sep\<close>: \<open>s\<close> up to the first \<open>sep\<close>.\<close>

fun split_first :: "string \<Rightarrow> string \<Rightarrow> string" where
  "split_first sep [] = []"
| "split_first sep (c # cs) =
     (if take (length sep) (c # cs) = sep then [] else c # split_first sep cs)"

text \<open>
  Reading and writing the string-valued keys of a rule dict by name:
  \<^verbatim>\<open>key in rule\<close> with \<^verbatim>\<open>rule[key]\<close>, and \<^verbatim>\<open>rule[key] = v\<close>.
\<close>

definition rule_get :: "rule_dict \<Rightarrow> string \<Rightarrow> string option" where
  "rule_get r key =
     (if key = ''direction'' then Some (direction r)
      else if key = ''ethertype'' then Some (ethertype r)
      else if key = ''protocol'' then protocol r
      else if key = ''remote_group_id'' then remote_group_id r
      else if key = ''source_ip_prefix'' then source_ip_prefix r
      else if key = ''dest_ip_prefix'' then dest_ip_prefix r
      else if key = ''security_group_id'' then security_group_id r
      else None)"

definition rule_set :: "rule_dict \<Rightarrow> string \<Rightarrow> string \<Rightarrow> rule_dict" where
  "rule_set r key v =
     (if key = ''source_ip_prefix'' then r\<lparr>source_ip_prefix := Some v\<rparr>
      else if key = ''dest_ip_prefix'' then r\<lparr>dest_ip_prefix := Some v\<rparr>
      else if key = ''security_group_id'' then r\<lparr>security_group_id := Some v\<rparr>
      else r)"

subsection \<open>SecurityGroupRuleBase and SecurityGroupRuleR2\<close>

text \<open>
  \<^verbatim>\<open>__init__\<close>. The test \<^verbatim>\<open>action is not ACL_PROP_MAP['action']['deny']\<close> compares
  the two action constants, modelled as inequality of their values.
\<close>

definition SecurityGroupRuleR2 ::
  "networkutils \<Rightarrow> int \<Rightarrow> string \<Rightarrow> string \<Rightarrow> string \<Rightarrow> int \<Rightarrow> sg_rule" where
  "SecurityGroupRuleR2 U direction' local_port protocol' remote_addr action =
     (let is_not_icmp = (protocol' \<notin> set [ICMP_PROTOCOL U, ICMPV6_PROTOCOL U]);
          LocalPort' = (if is_not_icmp then local_port else '''')
      in \<lparr>Direction = direction',
          Action = action,
          LocalPort = LocalPort',
          Protocol = protocol',
          RemoteIPAddress = remote_addr,
          Stateful = (is_not_icmp \<and> action \<noteq> ACL_ACTION_DENY U),
          IdleSessionTimeout = 0,
          Weight = 65500,
          cached_hash = (direction', action, LocalPort', protocol', remote_addr)\<rparr>)"

text \<open>
  \<^verbatim>\<open>__eq__\<close> of \<^verbatim>\<open>SecurityGroupRuleBase\<close> walks \<^verbatim>\<open>_FIELDS\<close>, which
  \<^verbatim>\<open>SecurityGroupRuleR2\<close> sets to seven names.
\<close>

definition sg_eq :: "sg_rule \<Rightarrow> sg_rule \<Rightarrow> bool" where
  "sg_eq a b =
     (Direction b = Direction a \<and> Action b = Action a \<and> LocalPort b = LocalPort a \<and>
      Protocol b = Protocol a \<and> RemoteIPAddress b = RemoteIPAddress a \<and>
      Stateful b = Stateful a \<and> IdleSessionTimeout b = IdleSessionTimeout a)"

text \<open>\<^verbatim>\<open>__hash__\<close> returns the hash that \<^verbatim>\<open>__init__\<close> has cached.\<close>

definition sg_hash :: "sg_rule \<Rightarrow> int \<times> int \<times> string \<times> string \<times> string" where
  "sg_hash r = cached_hash r"

text \<open>
  \<^verbatim>\<open>==\<close> between the objects found in the lists: dicts compare key by key, rules by
  \<^verbatim>\<open>__eq__\<close>, and a dict is never equal to a rule (\<^verbatim>\<open>hasattr(obj, 'Direction')\<close> fails).
\<close>

fun py_eq :: "entry \<Rightarrow> entry \<Rightarrow> bool" where
  "py_eq (AbstractRule a) (AbstractRule b) = (a = b)"
| "py_eq (ConcreteRule a) (ConcreteRule b) = sg_eq a b"
| "py_eq (AbstractRule a) (ConcreteRule b) = False"
| "py_eq (ConcreteRule a) (AbstractRule b) = False"

text \<open>\<^verbatim>\<open>x in xs\<close> on a list.\<close>

definition py_in :: "entry \<Rightarrow> entry list \<Rightarrow> bool" where
  "py_in x xs = list_ex (py_eq x) xs"

text \<open>
  \<^verbatim>\<open>list(set(xs))\<close> on rules: an element is dropped when the set already holds one
  with the same hash that is \<^verbatim>\<open>==\<close> to it. Python leaves the order of the result
  open; the model keeps the order of insertion.
\<close>

definition set_add :: "sg_rule list \<Rightarrow> sg_rule \<Rightarrow> sg_rule list" where
  "set_add s x = (if list_ex (\<lambda>y. sg_hash y = sg_hash x \<and> sg_eq y x) s then s else s @ [x])"

definition list_set :: "sg_rule list \<Rightarrow> sg_rule list" where
  "list_set xs = foldl set_add [] xs"

text \<open>
  \<^verbatim>\<open>old.remove(rule)\<close>: drops the first element equal to \<open>rule\<close>, \<open>None\<close> for the
  \<^verbatim>\<open>ValueError\<close> raised when there is none.
\<close>

fun list_remove :: "entry list \<Rightarrow> sg_rule \<Rightarrow> entry list option" where
  "list_remove [] x = None"
| "list_remove (e # es) x =
     (if py_eq e (ConcreteRule x) then Some es
      else (case list_remove es x of None \<Rightarrow> None | Some es' \<Rightarrow> Some (e # es')))"

text \<open>
  \<^verbatim>\<open>for rule in sg_rules: old.remove(rule)\<close>. The list is changed in place, so the
  removals made before a \<^verbatim>\<open>ValueError\<close> stay.
\<close>

fun remove_each :: "entry list \<Rightarrow> sg_rule list \<Rightarrow> error option \<times> entry list" where
  "remove_each old [] = (None, old)"
| "remove_each old (r # rs) =
     (case list_remove old r of
        None \<Rightarrow> (Some ValueError, old)
      | Some old' \<Rightarrow> remove_each old' rs)"

subsection \<open>SecurityGroupRuleGenerator and SecurityGroupRuleGeneratorR2\<close>

definition get_rule_remote_address :: "rule_dict \<Rightarrow> error + string" where
  "get_rule_remote_address rule =
     (let ip_prefix =
        (if direction rule = ''ingress'' then ''source_ip_prefix'' else ''dest_ip_prefix'')
      in case rule_get rule ip_prefix of
           Some v \<Rightarrow> Inr v
         | None \<Rightarrow> getitem ACL_PROP_MAP_address_default (ethertype rule))"

definition get_rule_port_range :: "rule_dict \<Rightarrow> string" where
  "get_rule_port_range rule =
     (case port_range_min rule of
        None \<Rightarrow> ACL_PROP_MAP_default
      | Some lo \<Rightarrow>
          (case port_range_max rule of
             None \<Rightarrow> ACL_PROP_MAP_default
           | Some hi \<Rightarrow> str_int lo @ ''-'' @ str_int hi))"

definition get_rule_prop_or_default :: "rule_dict \<Rightarrow> string \<Rightarrow> string" where
  "get_rule_prop_or_default rule prop =
     (case rule_get rule prop of Some v \<Rightarrow> v | None \<Rightarrow> ACL_PROP_MAP_default)"

text \<open>
  \<^verbatim>\<open>if protocol in iterkeys(...): return ACL_PROP_MAP['protocol'][protocol]\<close>: the
  lookup is made only for a key of the dict.
\<close>

definition get_rule_protocol :: "networkutils \<Rightarrow> rule_dict \<Rightarrow> string" where
  "get_rule_protocol U rule =
     (let protocol' = get_rule_prop_or_default rule ''protocol'' in
      case map_of (ACL_PROP_MAP_protocol U) protocol' of
        Some code \<Rightarrow> code
      | None \<Rightarrow> protocol')"

definition create_security_group_rule :: "networkutils \<Rightarrow> rule_dict \<Rightarrow> error + sg_rule list" where
  "create_security_group_rule U rule =
     (let local_port = get_rule_port_range rule in
      case getitem (ACL_PROP_MAP_direction U) (direction rule) of
        Inl e \<Rightarrow> Inl e
      | Inr direction' \<Rightarrow>
          (case get_rule_remote_address rule of
             Inl e \<Rightarrow> Inl e
           | Inr remote_address0 \<Rightarrow>
               (let remote_address = split_first ''/128'' remote_address0;
                    protocol' = get_rule_protocol U rule;
                    protocols =
                      (if protocol' = ACL_PROP_MAP_default
                       then map snd (ACL_PROP_MAP_protocol U)
                       else [protocol'])
                in Inr (map (\<lambda>proto. SecurityGroupRuleR2 U direction' local_port proto
                                       remote_address (ACL_ACTION_ALLOW U))
                            protocols))))"

text \<open>
  \<^verbatim>\<open>create_security_group_rules\<close> is handed whatever the caller's list holds. On a
  \<^verbatim>\<open>SecurityGroupRuleR2\<close> object the first step of \<^verbatim>\<open>create_security_group_rule\<close>,
  \<^verbatim>\<open>'port_range_min' in rule\<close>, raises \<^verbatim>\<open>TypeError\<close>.
\<close>

fun create_security_group_rules :: "networkutils \<Rightarrow> entry list \<Rightarrow> error + sg_rule list" where
  "create_security_group_rules U [] = Inr []"
| "create_security_group_rules U (ConcreteRule c # rules) = Inl TypeError"
| "create_security_group_rules U (AbstractRule rule # rules) =
     (case create_security_group_rule U rule of
        Inl e \<Rightarrow> Inl e
      | Inr sg_rules \<Rightarrow>
          (case create_security_group_rules U rules of
             Inl e \<Rightarrow> Inl e
           | Inr rest \<Rightarrow> Inr (sg_rules @ rest)))"

text \<open>
  \<^verbatim>\<open>ip_type_pairs\<close> of \<^verbatim>\<open>create_default_sg_rules\<close>: both lookups are made on the keys
  of \<^verbatim>\<open>ACL_PROP_MAP['ethertype']\<close>, which \<^verbatim>\<open>ACL_PROP_MAP['address_default']\<close> has too.
\<close>

definition ip_type_pairs :: "networkutils \<Rightarrow> (int \<times> string) list" where
  "ip_type_pairs U =
     concat (map (\<lambda>ip. case map_of (ACL_PROP_MAP_ethertype U) ip of
                          None \<Rightarrow> []
                        | Some acl_type \<Rightarrow>
                            (case map_of ACL_PROP_MAP_address_default ip of
                               None \<Rightarrow> []
                             | Some address \<Rightarrow> [(acl_type, address)]))
                 (map fst (ACL_PROP_MAP_ethertype U)))"

definition create_default_sg_rules :: "networkutils \<Rightarrow> sg_rule list" where
  "create_default_sg_rules U =
     (let action = ACL_ACTION_DENY U;
          port = ACL_PROP_MAP_default
      in concat (map (\<lambda>direction'.
           concat (map (\<lambda>protocol'.
             map (\<lambda>(acl_type, address).
                    SecurityGroupRuleR2 U direction' port protocol' address action)
                 (ip_type_pairs U))
             (map snd (ACL_PROP_MAP_protocol U))))
           (map snd (ACL_PROP_MAP_direction U))))"

definition compute_new_rules_add :: "entry list \<Rightarrow> sg_rule list \<Rightarrow> sg_rule list \<times> sg_rule list" where
  "compute_new_rules_add old_rules new_rules =
     (filter (\<lambda>r. \<not> py_in (ConcreteRule r) old_rules) new_rules, [])"

subsection \<open>The rule selector\<close>

text \<open>
  \<open>cidr ip\<close> stands for \<^verbatim>\<open>str(netaddr.IPNetwork(ip).cidr)\<close>, which is outside the
  module; it may raise. The three functions are the three nested loops of
  \<^verbatim>\<open>_select_sg_rules_for_port\<close>, innermost first; an exception ends all of them.
\<close>

fun select_member_rules ::
  "(string \<Rightarrow> error + string) \<Rightarrow> string \<Rightarrow> sg_id \<Rightarrow> string list \<Rightarrow> rule_dict \<Rightarrow>
   string list \<Rightarrow> error + rule_dict list" where
  "select_member_rules cidr direction' sg fixed rule [] = Inr []"
| "select_member_rules cidr direction' sg fixed rule (ip # ips) =
     (if ip \<in> set fixed then select_member_rules cidr direction' sg fixed rule ips
      else
        (case getitem DIRECTION_IP_PREFIX direction' of
           Inl e \<Rightarrow> Inl e
         | Inr direction_ip_prefix \<Rightarrow>
             (case cidr ip of
                Inl e \<Rightarrow> Inl e
              | Inr net \<Rightarrow>
                  (let ip_rule = rule_set (rule_set rule direction_ip_prefix net)
                                          ''security_group_id'' sg
                   in case select_member_rules cidr direction' sg fixed rule ips of
                        Inl e \<Rightarrow> Inl e
                      | Inr rest \<Rightarrow> Inr (ip_rule # rest)))))"

text \<open>
  \<^verbatim>\<open>rule.get('remote_group_id')\<close> under \<^verbatim>\<open>if not ...\<close>: an absent key and an empty
  string both count as no remote group.
\<close>

definition get_remote_group_id :: "rule_dict \<Rightarrow> sg_id option" where
  "get_remote_group_id rule =
     (case remote_group_id rule of
        None \<Rightarrow> None
      | Some g \<Rightarrow> (if g = [] then None else Some g))"

fun select_template_rules ::
  "(string \<Rightarrow> error + string) \<Rightarrow> (sg_id \<rightharpoonup> (string \<rightharpoonup> string list)) \<Rightarrow> string \<Rightarrow> sg_id \<Rightarrow>
   string list \<Rightarrow> rule_dict list \<Rightarrow> error + rule_dict list" where
  "select_template_rules cidr members direction' sg fixed [] = Inr []"
| "select_template_rules cidr members direction' sg fixed (rule # rules) =
     (if direction rule \<noteq> direction' then
        select_template_rules cidr members direction' sg fixed rules
      else
        (case get_remote_group_id rule of
           None \<Rightarrow>
             (case select_template_rules cidr members direction' sg fixed rules of
                Inl e \<Rightarrow> Inl e
              | Inr rest \<Rightarrow> Inr (rule_set rule ''security_group_id'' sg # rest))
         | Some remote_group \<Rightarrow>
             (case members remote_group of
                None \<Rightarrow> Inl KeyError
              | Some by_ethertype \<Rightarrow>
                  (case by_ethertype (ethertype rule) of
                     None \<Rightarrow> Inl KeyError
                   | Some ips \<Rightarrow>
                       (case select_member_rules cidr direction' sg fixed rule ips of
                          Inl e \<Rightarrow> Inl e
                        | Inr ip_rules \<Rightarrow>
                            (case select_template_rules cidr members direction' sg fixed rules of
                               Inl e \<Rightarrow> Inl e
                             | Inr rest \<Rightarrow> Inr (ip_rules @ rest)))))))"

fun select_group_rules ::
  "(string \<Rightarrow> error + string) \<Rightarrow> (sg_id \<rightharpoonup> rule_dict list) \<Rightarrow>
   (sg_id \<rightharpoonup> (string \<rightharpoonup> string list)) \<Rightarrow> string \<Rightarrow> string list \<Rightarrow> sg_id list \<Rightarrow>
   error + rule_dict list" where
  "select_group_rules cidr templates members direction' fixed [] = Inr []"
| "select_group_rules cidr templates members direction' fixed (sg # sgs) =
     (case select_template_rules cidr members direction' sg fixed
             (case templates sg of None \<Rightarrow> [] | Some rules \<Rightarrow> rules) of
        Inl e \<Rightarrow> Inl e
      | Inr rules \<Rightarrow>
          (case select_group_rules cidr templates members direction' fixed sgs of
             Inl e \<Rightarrow> Inl e
           | Inr rest \<Rightarrow> Inr (rules @ rest)))"

definition select_sg_rules_for_port ::
  "(string \<Rightarrow> error + string) \<Rightarrow> driver \<Rightarrow> port \<Rightarrow> string \<Rightarrow> error + rule_dict list" where
  "select_sg_rules_for_port cidr st p direction' =
     (let sg_ids = (case security_groups p of None \<Rightarrow> [] | Some l \<Rightarrow> l);
          fixed = (case fixed_ips p of None \<Rightarrow> [] | Some l \<Rightarrow> l)
      in select_group_rules cidr (sg_rule_templates st) (sg_members st) direction' fixed sg_ids)"

subsection \<open>HyperVSecurityGroupsDriverMixin\<close>

text \<open>
  A method that changes the driver returns the exception it raised, if any, and the
  driver as the method left it: what was changed before a \<^verbatim>\<open>raise\<close> stays changed.
  \<open>then_run\<close> is the sequencing of two statements.
\<close>

definition then_run ::
  "error option \<times> driver \<Rightarrow> (driver \<Rightarrow> error option \<times> driver) \<Rightarrow> error option \<times> driver" where
  "then_run r f = (case fst r of None \<Rightarrow> f (snd r) | Some e \<Rightarrow> (Some e, snd r))"

definition init_driver :: driver where
  "init_driver =
     \<lparr>sec_group_rules = Map.empty, security_ports = Map.empty, sg_members = Map.empty,
      sg_rule_templates = Map.empty, provider_calls = []\<rparr>"

definition update_security_group_rules :: "driver \<Rightarrow> sg_id \<Rightarrow> rule_dict list \<Rightarrow> driver" where
  "update_security_group_rules st sg sg_rules =
     st\<lparr>sg_rule_templates := (sg_rule_templates st)(sg \<mapsto> sg_rules)\<rparr>"

definition update_security_group_members ::
  "driver \<Rightarrow> sg_id \<Rightarrow> (string \<rightharpoonup> string list) \<Rightarrow> driver" where
  "update_security_group_members st sg members =
     st\<lparr>sg_members := (sg_members st)(sg \<mapsto> members)\<rparr>"

text \<open>\<^verbatim>\<open>_generate_rules\<close>: the loop over the ports, \<open>newports\<close> being the dict it fills.\<close>

fun generate_rules_loop ::
  "(string \<Rightarrow> error + string) \<Rightarrow> driver \<Rightarrow> (port_id \<rightharpoonup> rule_dict list) \<Rightarrow> port list \<Rightarrow>
   error + (port_id \<rightharpoonup> rule_dict list)" where
  "generate_rules_loop cidr st newports [] = Inr newports"
| "generate_rules_loop cidr st newports (p # ports) =
     (case select_sg_rules_for_port cidr st p INGRESS_DIRECTION of
        Inl e \<Rightarrow> Inl e
      | Inr ingress_rules \<Rightarrow>
          (case select_sg_rules_for_port cidr st p EGRESS_DIRECTION of
             Inl e \<Rightarrow> Inl e
           | Inr egress_rules \<Rightarrow>
               generate_rules_loop cidr st
                 (newports(port_id p \<mapsto> ingress_rules @ egress_rules)) ports))"

definition generate_rules ::
  "(string \<Rightarrow> error + string) \<Rightarrow> driver \<Rightarrow> port list \<Rightarrow> error + (port_id \<rightharpoonup> rule_dict list)" where
  "generate_rules cidr st ports = generate_rules_loop cidr st Map.empty ports"

text \<open>
  \<^verbatim>\<open>_add_sg_port_rules\<close>. \<^verbatim>\<open>greenthread.sleep()\<close> yields to other green threads and
  has no effect on the driver. The call is entered in \<open>provider_calls\<close> whether it
  returns or raises.
\<close>

definition add_sg_port_rules ::
  "networkutils \<Rightarrow> driver \<Rightarrow> port_id \<Rightarrow> sg_rule list \<Rightarrow> error option \<times> driver" where
  "add_sg_port_rules U st pid sg_rules =
     (if sg_rules = [] then (None, st)
      else
        (case sec_group_rules st pid of
           None \<Rightarrow> (Some KeyError, st)
         | Some old_sg_rules \<Rightarrow>
             (let called = st\<lparr>provider_calls := provider_calls st @ [CreateRules pid sg_rules]\<rparr>
              in case create_security_rules U (provider_calls st) pid sg_rules of
                   Some e \<Rightarrow> (Some (ProviderError e), called)
                 | None \<Rightarrow>
                     (None, called\<lparr>sec_group_rules :=
                        (sec_group_rules called)(pid \<mapsto>
                           old_sg_rules @ map ConcreteRule sg_rules)\<rparr>))))"

text \<open>
  \<^verbatim>\<open>_remove_sg_port_rules\<close>. A \<^verbatim>\<open>ValueError\<close> of \<^verbatim>\<open>old_sg_rules.remove(rule)\<close> is caught
  by the same \<^verbatim>\<open>except Exception\<close> and raised again.
\<close>

definition remove_sg_port_rules ::
  "networkutils \<Rightarrow> driver \<Rightarrow> port_id \<Rightarrow> sg_rule list \<Rightarrow> error option \<times> driver" where
  "remove_sg_port_rules U st pid sg_rules =
     (if sg_rules = [] then (None, st)
      else
        (case sec_group_rules st pid of
           None \<Rightarrow> (Some KeyError, st)
         | Some old_sg_rules \<Rightarrow>
             (let called = st\<lparr>provider_calls := provider_calls st @ [RemoveRules pid sg_rules]\<rparr>
              in case remove_security_rules U (provider_calls st) pid sg_rules of
                   Some e \<Rightarrow> (Some (ProviderError e), called)
                 | None \<Rightarrow>
                     (let removed = remove_each old_sg_rules sg_rules
                      in (fst removed,
                          called\<lparr>sec_group_rules :=
                            (sec_group_rules called)(pid \<mapsto> snd removed)\<rparr>)))))"

definition create_port_rules ::
  "networkutils \<Rightarrow> driver \<Rightarrow> port_id \<Rightarrow> entry list \<Rightarrow> error option \<times> driver" where
  "create_port_rules U st pid rules =
     (case create_security_group_rules U rules of
        Inl e \<Rightarrow> (Some e, st)
      | Inr sg_rules \<Rightarrow>
          (case sec_group_rules st pid of
             None \<Rightarrow> (Some KeyError, st)
           | Some old_sg_rules \<Rightarrow>
               (let add_rm = compute_new_rules_add old_sg_rules sg_rules
                in then_run (add_sg_port_rules U st pid (list_set (fst add_rm)))
                     (\<lambda>st. remove_sg_port_rules U st pid (list_set (snd add_rm))))))"

definition remove_port_rules ::
  "networkutils \<Rightarrow> driver \<Rightarrow> port_id \<Rightarrow> entry list \<Rightarrow> error option \<times> driver" where
  "remove_port_rules U st pid rules =
     (case create_security_group_rules U rules of
        Inl e \<Rightarrow> (Some e, st)
      | Inr sg_rules \<Rightarrow> remove_sg_port_rules U st pid (list_set sg_rules))"

text \<open>
  \<^verbatim>\<open>prepare_port_filter\<close>. \<open>new_device\<close> is the body of
  \<^verbatim>\<open>if port['device'] not in self._security_ports\<close>, \<open>apply_group_rules\<close> the
  statements after it.
\<close>

definition new_device ::
  "networkutils \<Rightarrow> driver \<Rightarrow> port \<Rightarrow> error option \<times> driver" where
  "new_device U st p =
     (let st0 = st\<lparr>sec_group_rules := (sec_group_rules st)(port_id p \<mapsto> [])\<rparr>;
          def_sg_rules = create_default_sg_rules U
      in then_run (add_sg_port_rules U st0 (port_id p) def_sg_rules)
           (\<lambda>st. let provider_rules = security_group_rules p
                 in create_port_rules U st (port_id p) (map AbstractRule provider_rules)))"

definition apply_group_rules ::
  "networkutils \<Rightarrow> (string \<Rightarrow> error + string) \<Rightarrow> driver \<Rightarrow> port \<Rightarrow> error option \<times> driver" where
  "apply_group_rules U cidr st p =
     (case generate_rules cidr st [p] of
        Inl e \<Rightarrow> (Some e, st)
      | Inr newrules \<Rightarrow>
          (case newrules (port_id p) of
             None \<Rightarrow> (Some KeyError, st)
           | Some rules \<Rightarrow>
               then_run (create_port_rules U st (port_id p) (map AbstractRule rules))
                 (\<lambda>st. (None,
                    st\<lparr>security_ports := (security_ports st)(device p \<mapsto> p),
                       sec_group_rules :=
                         (sec_group_rules st)(port_id p \<mapsto> map AbstractRule rules)\<rparr>))))"

definition prepare_port_filter ::
  "networkutils \<Rightarrow> (string \<Rightarrow> error + string) \<Rightarrow> driver \<Rightarrow> port \<Rightarrow> error option \<times> driver" where
  "prepare_port_filter U cidr st p =
     then_run (if security_ports st (device p) = None then new_device U st p else (None, st))
       (\<lambda>st. apply_group_rules U cidr st p)"

text \<open>
  \<^verbatim>\<open>update_port_filter\<close>. \<open>update_new_rules\<close> and \<open>update_remove_rules\<close> are the lists
  \<^verbatim>\<open>new_rules\<close> and \<^verbatim>\<open>remove_rules\<close> that the method builds, from the new port, the
  port remembered for the device, the rules selected for the new port and the list
  kept for the port id. Both comprehensions read \<^verbatim>\<open>self._sec_group_rules[port['id']]\<close>,
  the second one in any case, so a missing list is a \<^verbatim>\<open>KeyError\<close> before any change.
\<close>

definition update_new_rules ::
  "port \<Rightarrow> port \<Rightarrow> rule_dict list \<Rightarrow> entry list \<Rightarrow> rule_dict list" where
  "update_new_rules p old_port added kept =
     filter (\<lambda>r. r \<notin> set (security_group_rules old_port)) (security_group_rules p) @
     filter (\<lambda>r. \<not> py_in (AbstractRule r) kept) added"

definition update_remove_rules ::
  "port \<Rightarrow> port \<Rightarrow> rule_dict list \<Rightarrow> entry list \<Rightarrow> entry list" where
  "update_remove_rules p old_port added kept =
     filter (\<lambda>r. \<not> py_in r (map AbstractRule added)) kept @
     map AbstractRule
       (filter (\<lambda>r. r \<notin> set (security_group_rules p)) (security_group_rules old_port))"

definition update_port_filter ::
  "networkutils \<Rightarrow> (string \<Rightarrow> error + string) \<Rightarrow> driver \<Rightarrow> port \<Rightarrow> error option \<times> driver" where
  "update_port_filter U cidr st p =
     (case security_ports st (device p) of
        None \<Rightarrow> (None, st)
      | Some old_port \<Rightarrow>
          (case generate_rules cidr st [p] of
             Inl e \<Rightarrow> (Some e, st)
           | Inr added_rules \<Rightarrow>
               (case added_rules (port_id p) of
                  None \<Rightarrow> (Some KeyError, st)
                | Some added \<Rightarrow>
                    (case sec_group_rules st (port_id p) of
                       None \<Rightarrow> (Some KeyError, st)
                     | Some kept \<Rightarrow>
                         (let new_rules = update_new_rules p old_port added kept;
                              remove_rules = update_remove_rules p old_port added kept
                          in then_run
                               (create_port_rules U st (port_id p) (map AbstractRule new_rules))
                               (\<lambda>st. then_run
                                  (remove_port_rules U st (port_id old_port) remove_rules)
                                  (\<lambda>st. (None,
                                     st\<lparr>security_ports := (security_ports st)(device p \<mapsto> p),
                                        sec_group_rules :=
                                          (sec_group_rules st)(port_id p \<mapsto>
                                             map AbstractRule added)\<rparr>))))))))"

subsection \<open>A utilities object and a netaddr for running the driver\<close>

text \<open>
  A utilities object with the values that \<^verbatim>\<open>os_win\<close> gives the constants (1 and
  2 for the directions and for the actions, 2 and 3 for the address types, the strings
  \<^verbatim>\<open>'tcp'\<close>, \<^verbatim>\<open>'udp'\<close>, \<^verbatim>\<open>'1'\<close> and \<^verbatim>\<open>'58'\<close> for the protocols) and with calls that
  always return; \<open>failing_utils\<close> raises on every call. \<open>host_cidr\<close> appends the IPv4
  host mask, which is what netaddr returns for a plain IPv4 address:
  \<^verbatim>\<open>'10.0.0.2/32'\<close> for \<^verbatim>\<open>'10.0.0.2'\<close>. They serve to run the driver on concrete
  inputs; the general theorems hold for every utilities object and every \<open>cidr\<close>,
  under the hypotheses that they state.
\<close>

definition os_win_utils :: networkutils where
  "os_win_utils =
     \<lparr>ACL_DIR_IN = 1, ACL_DIR_OUT = 2, ACL_TYPE_IPV4 = 2, ACL_TYPE_IPV6 = 3,
      TCP_PROTOCOL = ''tcp'', UDP_PROTOCOL = ''udp'', ICMP_PROTOCOL = ''1'',
      ICMPV6_PROTOCOL = ''58'', ACL_ACTION_ALLOW = 1, ACL_ACTION_DENY = 2,
      create_security_rules = (\<lambda>calls pid rules. None),
      remove_security_rules = (\<lambda>calls pid rules. None)\<rparr>"

definition failing_utils :: networkutils where
  "failing_utils =
     os_win_utils\<lparr>create_security_rules := (\<lambda>calls pid rules. Some ''create failed''),
                  remove_security_rules := (\<lambda>calls pid rules. Some ''remove failed'')\<rparr>"

definition host_cidr :: "string \<Rightarrow> error + string" where
  "host_cidr ip = Inr (ip @ ''/32'')"

subsection \<open>Concrete inputs\<close>

text \<open>
  The scenario of the specification's self-exclusion test: group \<^verbatim>\<open>'A'\<close> with one
  template that refers to the group itself, two members, and a port that is one of them.
\<close>

definition group_template :: rule_dict where
  "group_template =
     \<lparr>direction = ''ingress'', ethertype = ''IPv4'', protocol = Some ''tcp'',
      port_range_min = Some 80, port_range_max = Some 80, remote_group_id = Some ''A'',
      source_ip_prefix = None, dest_ip_prefix = None, security_group_id = None\<rparr>"

definition scenario_driver :: driver where
  "scenario_driver =
     update_security_group_members
       (update_security_group_rules init_driver ''A'' [group_template])
       ''A'' [''IPv4'' \<mapsto> [''10.0.0.1'', ''10.0.0.2'']]"

definition scenario_port :: port where
  "scenario_port =
     \<lparr>port_id = ''P'', device = ''tapP'', fixed_ips = Some [''10.0.0.1''],
      security_groups = Some [''A''], security_group_rules = []\<rparr>"

text \<open>The same port with one provider rule, and the driver after the port was prepared.\<close>

definition provider_rule :: rule_dict where
  "provider_rule =
     \<lparr>direction = ''egress'', ethertype = ''IPv4'', protocol = Some ''udp'',
      port_range_min = Some 53, port_range_max = Some 53, remote_group_id = None,
      source_ip_prefix = None, dest_ip_prefix = None, security_group_id = None\<rparr>"

definition provider_port :: port where
  "provider_port = scenario_port\<lparr>security_group_rules := [provider_rule]\<rparr>"

definition prepared_driver :: driver where
  "prepared_driver =
     snd (prepare_port_filter os_win_utils host_cidr scenario_driver scenario_port)"

text \<open>
  The driver after the port was prepared and \<^verbatim>\<open>update_security_group_rules('A', [])\<close>
  has taken the template of group \<^verbatim>\<open>'A'\<close> away.
\<close>

definition emptied_driver :: driver where
  "emptied_driver = update_security_group_rules prepared_driver ''A'' []"

text \<open>The rules of group \<^verbatim>\<open>'A'\<close> have arrived, its members have not.\<close>

definition unsynced_driver :: driver where
  "unsynced_driver = update_security_group_rules init_driver ''A'' [group_template]"

text \<open>A rule with no \<^verbatim>\<open>'protocol'\<close> key.\<close>

definition any_protocol_rule :: rule_dict where
  "any_protocol_rule =
     \<lparr>direction = ''egress'', ethertype = ''IPv6'', protocol = None,
      port_range_min = Some 53, port_range_max = Some 53, remote_group_id = None,
      source_ip_prefix = None, dest_ip_prefix = Some ''::1/128'', security_group_id = None\<rparr>"

text \<open>
  The rule object made for the scenario, and a driver that keeps the rule for port
  \<^verbatim>\<open>'P'\<close>.
\<close>

definition witness_rule :: sg_rule where
  "witness_rule = SecurityGroupRuleR2 os_win_utils 1 ''80-80'' ''tcp'' ''10.0.0.2/32'' 1"

definition witness_driver :: driver where
  "witness_driver = init_driver\<lparr>sec_group_rules := [''P'' \<mapsto> [ConcreteRule witness_rule]]\<rparr>"

subsection \<open>The applied rule set in the specification's words\<close>

text \<open>
  The specification's invariant reads: the applied rule set of a port is the generator's
  output over the selector's output, together with the generator's output over the
  provider rules of the port. \<open>spec_applied_rules\<close> is that list, and
  \<open>spec_applied_rule_set_kept\<close> says that the list kept for the port id holds exactly
  these rule objects.
\<close>

definition spec_applied_rules ::
  "networkutils \<Rightarrow> (string \<Rightarrow> error + string) \<Rightarrow> driver \<Rightarrow> port \<Rightarrow> error + sg_rule list" where
  "spec_applied_rules U cidr st p =
     (case select_sg_rules_for_port cidr st p INGRESS_DIRECTION of
        Inl e \<Rightarrow> Inl e
      | Inr ingress_rules \<Rightarrow>
          (case select_sg_rules_for_port cidr st p EGRESS_DIRECTION of
             Inl e \<Rightarrow> Inl e
           | Inr egress_rules \<Rightarrow>
               (case create_security_group_rules U
                       (map AbstractRule (ingress_rules @ egress_rules)) of
                  Inl e \<Rightarrow> Inl e
                | Inr group_rules \<Rightarrow>
                    (case create_security_group_rules U
                            (map AbstractRule (security_group_rules p)) of
                       Inl e \<Rightarrow> Inl e
                     | Inr provider_rules \<Rightarrow> Inr (group_rules @ provider_rules)))))"

definition spec_applied_rule_set_kept ::
  "networkutils \<Rightarrow> (string \<Rightarrow> error + string) \<Rightarrow> driver \<Rightarrow> port \<Rightarrow> bool" where
  "spec_applied_rule_set_kept U cidr st p =
     (case spec_applied_rules U cidr st p of
        Inl e \<Rightarrow> False
      | Inr rules \<Rightarrow>
          (case sec_group_rules st (port_id p) of
             None \<Rightarrow> False
           | Some kept \<Rightarrow> set kept = ConcreteRule ` set rules))"

subsection \<open>What the methods that talk to the utilities object leave alone\<close>

text \<open>
  \<open>same_caches st st'\<close>: from \<open>st\<close> to \<open>st'\<close> the two caches and the remembered ports
  are unchanged, and calls were only added to the history.
\<close>

definition same_caches :: "driver \<Rightarrow> driver \<Rightarrow> bool" where
  "same_caches st st' =
     (sg_rule_templates st' = sg_rule_templates st \<and> sg_members st' = sg_members st \<and>
      security_ports st' = security_ports st \<and>
      prefix (provider_calls st) (provider_calls st'))"

section \<open>Properties\<close>

subsection \<open>Sequencing\<close>

lemma then_run_None [simp]: "then_run (None, st) f = f st"
  by (simp add: then_run_def)

lemma then_run_Some [simp]: "then_run (Some e, st) f = (Some e, st)"
  by (simp add: then_run_def)

lemma then_run_ok:
  "fst (then_run r f) = None \<longleftrightarrow> fst r = None \<and> fst (f (snd r)) = None"
  by (cases r; cases "fst r") (auto simp add: then_run_def)

lemma then_run_snd:
  "fst r = None \<Longrightarrow> snd (then_run r f) = snd (f (snd r))"
  by (simp add: then_run_def)

lemma same_caches_refl [simp]: "same_caches st st"
  by (simp add: same_caches_def)

lemma same_caches_trans: "same_caches a b \<Longrightarrow> same_caches b c \<Longrightarrow> same_caches a c"
  by (auto simp add: same_caches_def)

lemma same_caches_calls: "same_caches s s' \<Longrightarrow> prefix (provider_calls s) (provider_calls s')"
  by (simp add: same_caches_def)

lemma then_run_same_caches:
  assumes "same_caches st (snd r)" and "\<And>s. same_caches s (snd (f s))"
  shows "same_caches st (snd (then_run r f))"
  using assms by (cases "fst r") (auto simp add: then_run_def intro: same_caches_trans)

lemma then_run_calls:
  assumes "prefix xs (provider_calls (snd r))"
      and "\<And>s. prefix (provider_calls s) (provider_calls (snd (f s)))"
  shows "prefix xs (provider_calls (snd (then_run r f)))"
proof (cases "fst r")
  case None
  then have "snd (then_run r f) = snd (f (snd r))" by (rule then_run_snd)
  then show ?thesis using assms prefix_order.trans by metis
next
  case (Some e)
  then show ?thesis using assms(1) by (simp add: then_run_def)
qed

subsection \<open>Built-ins\<close>

lemma str_int_80: "str_int 80 = ''80''"
  by code_simp

lemma list_set_Nil [simp]: "list_set [] = []"
  by (simp add: list_set_def)

lemma py_in_AbstractRule [simp]: "py_in (AbstractRule r) (map AbstractRule rs) \<longleftrightarrow> r \<in> set rs"
  by (induction rs) (auto simp add: py_in_def)

subsection \<open>Rule objects: equality and hash\<close>

text \<open>
  Claim C5. For every two rule objects that \<^verbatim>\<open>__init__\<close> builds: they are equal exactly
  when they agree on the five fields direction, action, local port, protocol and remote
  address, the hash is taken from these five fields, and two rules that agree on them
  have the same hash. \<^verbatim>\<open>Stateful\<close> is computed from protocol and action,
  \<^verbatim>\<open>IdleSessionTimeout\<close> and \<^verbatim>\<open>Weight\<close> are the class constants, so none of the three
  can tell two such rules apart.
\<close>

theorem rule_equality_and_hash:
  assumes "a = SecurityGroupRuleR2 U d l p r c"
      and "b = SecurityGroupRuleR2 U d' l' p' r' c'"
  shows "(sg_eq a b \<longleftrightarrow>
            Direction a = Direction b \<and> Action a = Action b \<and> LocalPort a = LocalPort b \<and>
            Protocol a = Protocol b \<and> RemoteIPAddress a = RemoteIPAddress b) \<and>
         sg_hash a = (Direction a, Action a, LocalPort a, Protocol a, RemoteIPAddress a) \<and>
         (Direction a = Direction b \<and> Action a = Action b \<and> LocalPort a = LocalPort b \<and>
          Protocol a = Protocol b \<and> RemoteIPAddress a = RemoteIPAddress b \<longrightarrow>
            sg_eq a b \<and> sg_hash a = sg_hash b)"
  using assms by (auto simp add: sg_hash_def sg_eq_def SecurityGroupRuleR2_def Let_def)

theorem rule_equality_and_hash_witness:
  "LocalPort (SecurityGroupRuleR2 os_win_utils 1 ''80-80'' ''1'' ''::/0'' 1) =
     LocalPort (SecurityGroupRuleR2 os_win_utils 1 ''ANY'' ''1'' ''::/0'' 1) \<and>
   sg_eq (SecurityGroupRuleR2 os_win_utils 1 ''80-80'' ''1'' ''::/0'' 1)
         (SecurityGroupRuleR2 os_win_utils 1 ''ANY'' ''1'' ''::/0'' 1) \<and>
   sg_hash (SecurityGroupRuleR2 os_win_utils 1 ''80-80'' ''1'' ''::/0'' 1) =
     sg_hash (SecurityGroupRuleR2 os_win_utils 1 ''ANY'' ''1'' ''::/0'' 1) \<and>
   sg_hash (SecurityGroupRuleR2 os_win_utils 1 ''80-80'' ''1'' ''::/0'' 1) =
     (1, 1, [], ''1'', ''::/0'')"
proof -
  let ?a = "SecurityGroupRuleR2 os_win_utils 1 ''80-80'' ''1'' ''::/0'' 1"
  let ?b = "SecurityGroupRuleR2 os_win_utils 1 ''ANY'' ''1'' ''::/0'' 1"
  have five: "Direction ?a = Direction ?b \<and> Action ?a = Action ?b \<and>
              LocalPort ?a = LocalPort ?b \<and> Protocol ?a = Protocol ?b \<and>
              RemoteIPAddress ?a = RemoteIPAddress ?b"
    by (simp add: SecurityGroupRuleR2_def Let_def os_win_utils_def)
  have vals: "(Direction ?a, Action ?a, LocalPort ?a, Protocol ?a, RemoteIPAddress ?a) =
              (1, 1, [], ''1'', ''::/0'')"
    by (simp add: SecurityGroupRuleR2_def Let_def os_win_utils_def)
  note both = rule_equality_and_hash [OF refl refl, of os_win_utils 1 "''80-80''" "''1''"
      "''::/0''" 1 1 "''ANY''" "''1''" "''::/0''" 1]
  have eq: "sg_eq ?a ?b \<and> sg_hash ?a = sg_hash ?b"
    by (rule both [THEN conjunct2, THEN conjunct2, THEN mp, OF five])
  have h: "sg_hash ?a = (1, 1, [], ''1'', ''::/0'')"
    by (rule trans [OF both [THEN conjunct2, THEN conjunct1] vals])
  show ?thesis
    using five eq h by (intro conjI) (elim conjE, assumption)+
qed

subsection \<open>The default rules\<close>

lemma default_rules_unfold:
  "create_default_sg_rules U =
     [SecurityGroupRuleR2 U d ACL_PROP_MAP_default p a (ACL_ACTION_DENY U).
        d \<leftarrow> [ACL_DIR_IN U, ACL_DIR_OUT U],
        p \<leftarrow> [TCP_PROTOCOL U, UDP_PROTOCOL U, ICMP_PROTOCOL U, ICMPV6_PROTOCOL U],
        a \<leftarrow> [''0.0.0.0/0'', ''::/0'']]"
  by (simp add: create_default_sg_rules_def ip_type_pairs_def ACL_PROP_MAP_ethertype_def
      ACL_PROP_MAP_address_default_def ACL_PROP_MAP_protocol_def ACL_PROP_MAP_direction_def
      Let_def)

lemma default_rules_not_empty: "create_default_sg_rules U \<noteq> []"
  by (simp add: default_rules_unfold)

lemma default_rules_length: "length (create_default_sg_rules U) = 16"
  by (simp add: default_rules_unfold)

lemma default_rules_deny: "r \<in> set (create_default_sg_rules U) \<Longrightarrow> Action r = ACL_ACTION_DENY U"
  by (auto simp add: default_rules_unfold SecurityGroupRuleR2_def Let_def)

text \<open>
  Claim C6 as it is stated does not hold: the fifth default rule is the ingress ICMP
  rule for IPv4, and its local port is the empty string, not the wildcard marker.
\<close>

theorem default_icmp_rule_has_no_port:
  "create_default_sg_rules os_win_utils ! 4 \<in> set (create_default_sg_rules os_win_utils) \<and>
   Protocol (create_default_sg_rules os_win_utils ! 4) = ICMP_PROTOCOL os_win_utils \<and>
   Action (create_default_sg_rules os_win_utils ! 4) = ACL_ACTION_DENY os_win_utils \<and>
   LocalPort (create_default_sg_rules os_win_utils ! 4) = [] \<and>
   LocalPort (create_default_sg_rules os_win_utils ! 4) \<noteq> ACL_PROP_MAP_default"
  by (simp add: default_rules_unfold SecurityGroupRuleR2_def Let_def ACL_PROP_MAP_default_def
      os_win_utils_def)

text \<open>
  Claim C6, amended. \<^verbatim>\<open>create_default_sg_rules\<close> returns exactly 16 rules, one for each
  combination of the 2 directions, the 4 known protocols and the 2 default addresses of
  the ethertypes. Every rule has the deny action and is not stateful, and its remote
  address is one of the two default addresses. Its local port is the wildcard marker
  when the protocol is not one of the two ICMP protocols, and empty when it is.
\<close>

theorem default_rules_deny_all:
  "length (create_default_sg_rules U) = 16 \<and>
   mset (map (\<lambda>r. (Direction r, Protocol r, RemoteIPAddress r)) (create_default_sg_rules U)) =
     mset [(d, p, a).
        d \<leftarrow> [ACL_DIR_IN U, ACL_DIR_OUT U],
        p \<leftarrow> [TCP_PROTOCOL U, UDP_PROTOCOL U, ICMP_PROTOCOL U, ICMPV6_PROTOCOL U],
        a \<leftarrow> map snd ACL_PROP_MAP_address_default] \<and>
   (\<forall>r \<in> set (create_default_sg_rules U).
      Action r = ACL_ACTION_DENY U \<and> Stateful r = False \<and>
      LocalPort r =
        (if Protocol r \<in> {ICMP_PROTOCOL U, ICMPV6_PROTOCOL U} then []
         else ACL_PROP_MAP_default) \<and>
      RemoteIPAddress r \<in> set (map snd ACL_PROP_MAP_address_default))"
  by (simp add: default_rules_unfold SecurityGroupRuleR2_def Let_def ACL_PROP_MAP_address_default_def)

theorem default_rules_deny_all_witness:
  "length (create_default_sg_rules os_win_utils) = 16 \<and>
   Action (create_default_sg_rules os_win_utils ! 0) = 2 \<and>
   LocalPort (create_default_sg_rules os_win_utils ! 0) = ''ANY'' \<and>
   Protocol (create_default_sg_rules os_win_utils ! 0) = ''tcp'' \<and>
   Action (create_default_sg_rules os_win_utils ! 4) = 2 \<and>
   LocalPort (create_default_sg_rules os_win_utils ! 4) = [] \<and>
   Protocol (create_default_sg_rules os_win_utils ! 4) = ''1''"
proof -
  have len: "length (create_default_sg_rules os_win_utils) = 16"
    using default_rules_deny_all [of os_win_utils] by (elim conjE) assumption
  have m0: "create_default_sg_rules os_win_utils ! 0 \<in> set (create_default_sg_rules os_win_utils)"
    and m4: "create_default_sg_rules os_win_utils ! 4 \<in> set (create_default_sg_rules os_win_utils)"
    using len by (simp_all del: One_nat_def)
  have p0: "Protocol (create_default_sg_rules os_win_utils ! 0) = ''tcp''"
    and p4: "Protocol (create_default_sg_rules os_win_utils ! 4) = ''1''"
    by (simp_all add: default_rules_unfold SecurityGroupRuleR2_def Let_def os_win_utils_def)
  have c: "ICMP_PROTOCOL os_win_utils = ''1''" "ICMPV6_PROTOCOL os_win_utils = ''58''"
          "ACL_ACTION_DENY os_win_utils = 2"
    by (simp_all add: os_win_utils_def)
  have a0: "Action (create_default_sg_rules os_win_utils ! 0) = 2 \<and>
            LocalPort (create_default_sg_rules os_win_utils ! 0) = ''ANY''"
    using default_rules_deny_all [of os_win_utils] m0 p0 c
    by (auto simp add: ACL_PROP_MAP_default_def)
  have a4: "Action (create_default_sg_rules os_win_utils ! 4) = 2 \<and>
            LocalPort (create_default_sg_rules os_win_utils ! 4) = []"
    using default_rules_deny_all [of os_win_utils] m4 p4 c
    by (auto simp add: ACL_PROP_MAP_default_def)
  show ?thesis using len a0 a4 p0 p4 by simp
qed

subsection \<open>The generator\<close>

text \<open>
  Claim C7. For a rule dict that has no \<^verbatim>\<open>'protocol'\<close> key, with a direction and an
  ethertype that \<^verbatim>\<open>ACL_PROP_MAP\<close> knows, \<^verbatim>\<open>create_security_group_rule\<close> returns exactly
  4 rules, whose protocols are the four protocol codes of \<^verbatim>\<open>ACL_PROP_MAP\<close>: tcp, udp,
  icmp and icmpv6. The two ICMP rules are not stateful and have an empty local port.
  Provided that none of the four codes is the string \<^verbatim>\<open>'ANY'\<close>, no rule carries the
  wildcard marker as its protocol.
\<close>

theorem no_protocol_expands:
  assumes "protocol rule = None"
      and "direction rule \<in> {''ingress'', ''egress''}"
      and "ethertype rule \<in> {''IPv4'', ''IPv6''}"
      and "ACL_PROP_MAP_default \<notin>
             {TCP_PROTOCOL U, UDP_PROTOCOL U, ICMP_PROTOCOL U, ICMPV6_PROTOCOL U}"
  shows "\<exists>rs. create_security_group_rule U rule = Inr rs \<and> length rs = 4 \<and>
           mset (map Protocol rs) =
             mset [TCP_PROTOCOL U, UDP_PROTOCOL U, ICMP_PROTOCOL U, ICMPV6_PROTOCOL U] \<and>
           (\<forall>r \<in> set rs. Protocol r \<noteq> ACL_PROP_MAP_default) \<and>
           (\<forall>r \<in> set rs. Protocol r \<in> {ICMP_PROTOCOL U, ICMPV6_PROTOCOL U} \<longrightarrow>
              Stateful r = False \<and> LocalPort r = [])"
  using assms
  by (auto simp add: create_security_group_rule_def getitem_def ACL_PROP_MAP_direction_def
      get_rule_remote_address_def rule_get_def ACL_PROP_MAP_address_default_def
      get_rule_protocol_def get_rule_prop_or_default_def ACL_PROP_MAP_protocol_def
      ACL_PROP_MAP_default_def SecurityGroupRuleR2_def Let_def split: option.splits)

theorem no_protocol_expands_witness:
  "protocol any_protocol_rule = None \<and>
   direction any_protocol_rule \<in> {''ingress'', ''egress''} \<and>
   ethertype any_protocol_rule \<in> {''IPv4'', ''IPv6''} \<and>
   ACL_PROP_MAP_default \<notin>
     {TCP_PROTOCOL os_win_utils, UDP_PROTOCOL os_win_utils, ICMP_PROTOCOL os_win_utils,
      ICMPV6_PROTOCOL os_win_utils} \<and>
   (\<exists>rs. create_security_group_rule os_win_utils any_protocol_rule = Inr rs \<and>
         length rs = 4 \<and> map Protocol rs = [''tcp'', ''udp'', ''1'', ''58''] \<and>
         map LocalPort rs = [''53-53'', ''53-53'', [], []] \<and>
         map Stateful rs = [True, True, False, False] \<and>
         map RemoteIPAddress rs = [''::1'', ''::1'', ''::1'', ''::1''])"
proof -
  have h1: "protocol any_protocol_rule = None"
    and h2: "direction any_protocol_rule \<in> {''ingress'', ''egress''}"
    and h3: "ethertype any_protocol_rule \<in> {''IPv4'', ''IPv6''}"
    by (simp_all add: any_protocol_rule_def)
  have h4: "ACL_PROP_MAP_default \<notin>
     {TCP_PROTOCOL os_win_utils, UDP_PROTOCOL os_win_utils, ICMP_PROTOCOL os_win_utils,
      ICMPV6_PROTOCOL os_win_utils}"
    by (simp add: ACL_PROP_MAP_default_def os_win_utils_def)
  have run: "create_security_group_rule os_win_utils any_protocol_rule =
     Inr (map (\<lambda>proto. SecurityGroupRuleR2 os_win_utils 2 ''53-53'' proto ''::1'' 1)
            [''tcp'', ''udp'', ''1'', ''58''])"
    by code_simp
  from no_protocol_expands [OF h1 h2 h3 h4] obtain rs where
    rs: "create_security_group_rule os_win_utils any_protocol_rule = Inr rs" "length rs = 4"
    by blast
  have m: "map Protocol rs = [''tcp'', ''udp'', ''1'', ''58'']"
          "map LocalPort rs = [''53-53'', ''53-53'', [], []]"
          "map Stateful rs = [True, True, False, False]"
          "map RemoteIPAddress rs = [''::1'', ''::1'', ''::1'', ''::1'']"
    using rs(1) run by (auto simp add: SecurityGroupRuleR2_def Let_def os_win_utils_def)
  show ?thesis
    using rs h1 h2 h3 h4 m by (intro conjI exI [of _ rs]) assumption+
qed

text \<open>
  The same holds of every rule dict, with or without a \<^verbatim>\<open>'protocol'\<close> key: no rule
  that the generator returns has the wildcard marker as its protocol.
\<close>

lemma wildcard_protocol_never_generated:
  assumes "ACL_PROP_MAP_default \<notin>
             {TCP_PROTOCOL U, UDP_PROTOCOL U, ICMP_PROTOCOL U, ICMPV6_PROTOCOL U}"
      and "create_security_group_rule U rule = Inr rs"
      and "r \<in> set rs"
  shows "Protocol r \<noteq> ACL_PROP_MAP_default"
  using assms
  by (auto simp add: create_security_group_rule_def ACL_PROP_MAP_protocol_def
      get_rule_protocol_def SecurityGroupRuleR2_def Let_def
      split: sum.splits option.splits if_splits)

subsection \<open>The selector\<close>

text \<open>
  Claim C9. In a driver whose templates for group \<^verbatim>\<open>'A'\<close> are the one template
  (ingress, IPv4, tcp, ports 80 to 80, remote group \<^verbatim>\<open>'A'\<close>) and whose IPv4 members of
  \<^verbatim>\<open>'A'\<close> are 10.0.0.1 and 10.0.0.2, for a port with the fixed address 10.0.0.1 in
  group \<^verbatim>\<open>'A'\<close>: the selector emits exactly one rule, the template with the source
  prefix 10.0.0.2/32 (nothing for the port's own address, nothing for egress), and the
  generator makes of it exactly one rule object: ingress, allow, local port 80-80, tcp,
  remote address 10.0.0.2/32, stateful. This is so for every netaddr that renders
  10.0.0.2 as 10.0.0.2/32 and all constants of the utilities class whose tcp code is
  neither the wildcard marker nor an ICMP code and whose allow and deny actions differ.
\<close>

theorem self_exclusion_scenario:
  assumes "sg_rule_templates st ''A'' = Some [group_template]"
      and "sg_members st ''A'' = Some members"
      and "members ''IPv4'' = Some [''10.0.0.1'', ''10.0.0.2'']"
      and "fixed_ips p = Some [''10.0.0.1'']"
      and "security_groups p = Some [''A'']"
      and "cidr ''10.0.0.2'' = Inr ''10.0.0.2/32''"
      and "TCP_PROTOCOL U \<notin> {ACL_PROP_MAP_default, ICMP_PROTOCOL U, ICMPV6_PROTOCOL U}"
      and "ACL_ACTION_ALLOW U \<noteq> ACL_ACTION_DENY U"
  shows "select_sg_rules_for_port cidr st p INGRESS_DIRECTION =
           Inr [group_template\<lparr>source_ip_prefix := Some ''10.0.0.2/32'',
                               security_group_id := Some ''A''\<rparr>] \<and>
         select_sg_rules_for_port cidr st p EGRESS_DIRECTION = Inr [] \<and>
         create_security_group_rules U
           [AbstractRule (group_template\<lparr>source_ip_prefix := Some ''10.0.0.2/32'',
                                         security_group_id := Some ''A''\<rparr>)] =
           Inr [\<lparr>Direction = ACL_DIR_IN U, Action = ACL_ACTION_ALLOW U, LocalPort = ''80-80'',
                 Protocol = TCP_PROTOCOL U, RemoteIPAddress = ''10.0.0.2/32'', Stateful = True,
                 IdleSessionTimeout = 0, Weight = 65500,
                 cached_hash = (ACL_DIR_IN U, ACL_ACTION_ALLOW U, ''80-80'', TCP_PROTOCOL U,
                                ''10.0.0.2/32'')\<rparr>]"
proof -
  have sel_in: "select_sg_rules_for_port cidr st p INGRESS_DIRECTION =
           Inr [group_template\<lparr>source_ip_prefix := Some ''10.0.0.2/32'',
                               security_group_id := Some ''A''\<rparr>]"
    using assms(1-6)
    by (simp add: select_sg_rules_for_port_def INGRESS_DIRECTION_def group_template_def
        get_remote_group_id_def getitem_def DIRECTION_IP_PREFIX_def rule_set_def)
  have sel_out: "select_sg_rules_for_port cidr st p EGRESS_DIRECTION = Inr []"
    using assms(1-5)
    by (simp add: select_sg_rules_for_port_def EGRESS_DIRECTION_def group_template_def)
  have gen: "create_security_group_rules U
           [AbstractRule (group_template\<lparr>source_ip_prefix := Some ''10.0.0.2/32'',
                                         security_group_id := Some ''A''\<rparr>)] =
           Inr [\<lparr>Direction = ACL_DIR_IN U, Action = ACL_ACTION_ALLOW U, LocalPort = ''80-80'',
                 Protocol = TCP_PROTOCOL U, RemoteIPAddress = ''10.0.0.2/32'', Stateful = True,
                 IdleSessionTimeout = 0, Weight = 65500,
                 cached_hash = (ACL_DIR_IN U, ACL_ACTION_ALLOW U, ''80-80'', TCP_PROTOCOL U,
                                ''10.0.0.2/32'')\<rparr>]"
    using assms(7,8)
    by (simp add: create_security_group_rule_def group_template_def getitem_def
        ACL_PROP_MAP_direction_def get_rule_remote_address_def rule_get_def
        get_rule_port_range_def str_int_80 get_rule_protocol_def get_rule_prop_or_default_def
        ACL_PROP_MAP_protocol_def SecurityGroupRuleR2_def Let_def)
  show ?thesis using sel_in sel_out gen by (intro conjI) assumption+
qed

theorem self_exclusion_scenario_witness:
  "sg_rule_templates scenario_driver ''A'' = Some [group_template] \<and>
   sg_members scenario_driver ''A'' = Some [''IPv4'' \<mapsto> [''10.0.0.1'', ''10.0.0.2'']] \<and>
   fixed_ips scenario_port = Some [''10.0.0.1''] \<and>
   security_groups scenario_port = Some [''A''] \<and>
   host_cidr ''10.0.0.2'' = Inr ''10.0.0.2/32'' \<and>
   select_sg_rules_for_port host_cidr scenario_driver scenario_port INGRESS_DIRECTION =
     Inr [group_template\<lparr>source_ip_prefix := Some ''10.0.0.2/32'',
                         security_group_id := Some ''A''\<rparr>] \<and>
   select_sg_rules_for_port host_cidr scenario_driver scenario_port EGRESS_DIRECTION = Inr [] \<and>
   create_security_group_rules os_win_utils
     [AbstractRule (group_template\<lparr>source_ip_prefix := Some ''10.0.0.2/32'',
                                   security_group_id := Some ''A''\<rparr>)] =
     Inr [\<lparr>Direction = 1, Action = 1, LocalPort = ''80-80'', Protocol = ''tcp'',
           RemoteIPAddress = ''10.0.0.2/32'', Stateful = True,
           IdleSessionTimeout = 0, Weight = 65500,
           cached_hash = (1, 1, ''80-80'', ''tcp'', ''10.0.0.2/32'')\<rparr>]"
proof -
  have h1: "sg_rule_templates scenario_driver ''A'' = Some [group_template]"
    and h2: "sg_members scenario_driver ''A'' = Some [''IPv4'' \<mapsto> [''10.0.0.1'', ''10.0.0.2'']]"
    by (simp_all add: scenario_driver_def update_security_group_members_def
        update_security_group_rules_def)
  have h3: "[''IPv4'' \<mapsto> [''10.0.0.1'', ''10.0.0.2'']] ''IPv4'' = Some [''10.0.0.1'', ''10.0.0.2'']"
    by simp
  have h4: "fixed_ips scenario_port = Some [''10.0.0.1'']"
    and h5: "security_groups scenario_port = Some [''A'']"
    by (simp_all add: scenario_port_def)
  have h6: "host_cidr ''10.0.0.2'' = Inr ''10.0.0.2/32''"
    by (simp add: host_cidr_def)
  have h7: "TCP_PROTOCOL os_win_utils \<notin>
              {ACL_PROP_MAP_default, ICMP_PROTOCOL os_win_utils, ICMPV6_PROTOCOL os_win_utils}"
    by (simp add: os_win_utils_def ACL_PROP_MAP_default_def)
  have h8: "ACL_ACTION_ALLOW os_win_utils \<noteq> ACL_ACTION_DENY os_win_utils"
    by (simp add: os_win_utils_def)
  have c: "ACL_DIR_IN os_win_utils = 1" "ACL_ACTION_ALLOW os_win_utils = 1"
          "TCP_PROTOCOL os_win_utils = ''tcp''"
    by (simp_all add: os_win_utils_def)
  show ?thesis
    using self_exclusion_scenario
            [where st = scenario_driver and p = scenario_port and cidr = host_cidr
               and U = os_win_utils
               and members = "[''IPv4'' \<mapsto> [''10.0.0.1'', ''10.0.0.2'']]",
             OF h1 h2 h3 h4 h5 h6 h7 h8]
          h1 h2 h4 h5 h6
    unfolding c by (intro conjI) (elim conjE, assumption)+
qed

text \<open>
  Claim C4, on the group that the claim singles out: the rules of group \<^verbatim>\<open>'A'\<close> refer
  to the members of \<^verbatim>\<open>'A'\<close>, and no members have been cached for it. The selector
  raises \<^verbatim>\<open>KeyError\<close> where the claim says that it contributes no rules.
\<close>

theorem missing_members_raise:
  "sg_members unsynced_driver ''A'' = None \<and>
   select_sg_rules_for_port host_cidr unsynced_driver scenario_port INGRESS_DIRECTION =
     Inl KeyError"
  by (simp add: select_sg_rules_for_port_def unsynced_driver_def update_security_group_rules_def
      init_driver_def scenario_port_def INGRESS_DIRECTION_def group_template_def
      get_remote_group_id_def)

text \<open>
  The other half of the claim holds: a group of the port for which no templates are
  cached adds nothing and raises nothing, since the templates are read with
  \<^verbatim>\<open>self._sg_rule_templates.get(sg_id, [])\<close>.
\<close>

lemma missing_templates_contribute_nothing:
  assumes "templates sg = None"
  shows "select_group_rules cidr templates members d fixed (sg # sgs) =
           select_group_rules cidr templates members d fixed sgs"
  using assms by (simp split: sum.splits)

subsection \<open>Batches sent to the utilities object\<close>

text \<open>
  Claim C10. When the batch handed to \<^verbatim>\<open>_add_sg_port_rules\<close> or to
  \<^verbatim>\<open>_remove_sg_port_rules\<close> is empty, the method returns at once: no exception, no call
  on the utilities object (\<open>provider_calls\<close> is part of the driver), and the driver is
  the one it was given.
\<close>

theorem empty_batch_changes_nothing:
  "add_sg_port_rules U st pid [] = (None, st) \<and> remove_sg_port_rules U st pid [] = (None, st)"
  by (simp add: add_sg_port_rules_def remove_sg_port_rules_def)

text \<open>
  Claim C3. For a non-empty batch and a port id that has a list: when the call on the
  utilities object raises \<open>e\<close>, the method raises \<open>e\<close> and nothing but the call history
  has changed; when the call returns, the batch is appended to the list
  (\<^verbatim>\<open>_add_sg_port_rules\<close>) or its rules are removed from it one by one
  (\<^verbatim>\<open>_remove_sg_port_rules\<close>); and the lists differ from what they were only if the
  call returned.
\<close>

theorem batch_bookkeeping:
  assumes "sg_rules \<noteq> []" and "sec_group_rules st pid = Some old"
  shows "(\<forall>e. create_security_rules U (provider_calls st) pid sg_rules = Some e \<longrightarrow>
            add_sg_port_rules U st pid sg_rules =
              (Some (ProviderError e),
               st\<lparr>provider_calls := provider_calls st @ [CreateRules pid sg_rules]\<rparr>)) \<and>
         (create_security_rules U (provider_calls st) pid sg_rules = None \<longrightarrow>
            add_sg_port_rules U st pid sg_rules =
              (None,
               st\<lparr>provider_calls := provider_calls st @ [CreateRules pid sg_rules],
                  sec_group_rules :=
                    (sec_group_rules st)(pid \<mapsto> old @ map ConcreteRule sg_rules)\<rparr>)) \<and>
         (\<forall>e. remove_security_rules U (provider_calls st) pid sg_rules = Some e \<longrightarrow>
            remove_sg_port_rules U st pid sg_rules =
              (Some (ProviderError e),
               st\<lparr>provider_calls := provider_calls st @ [RemoveRules pid sg_rules]\<rparr>)) \<and>
         (remove_security_rules U (provider_calls st) pid sg_rules = None \<longrightarrow>
            remove_sg_port_rules U st pid sg_rules =
              (fst (remove_each old sg_rules),
               st\<lparr>provider_calls := provider_calls st @ [RemoveRules pid sg_rules],
                  sec_group_rules :=
                    (sec_group_rules st)(pid \<mapsto> snd (remove_each old sg_rules))\<rparr>)) \<and>
         (sec_group_rules (snd (add_sg_port_rules U st pid sg_rules)) \<noteq> sec_group_rules st \<longrightarrow>
            create_security_rules U (provider_calls st) pid sg_rules = None) \<and>
         (sec_group_rules (snd (remove_sg_port_rules U st pid sg_rules)) \<noteq> sec_group_rules st \<longrightarrow>
            remove_security_rules U (provider_calls st) pid sg_rules = None)"
  using assms
  by (auto simp add: add_sg_port_rules_def remove_sg_port_rules_def Let_def split: option.splits)

theorem batch_bookkeeping_witness:
  "add_sg_port_rules failing_utils witness_driver ''P'' [witness_rule] =
     (Some (ProviderError ''create failed''),
      witness_driver\<lparr>provider_calls := [CreateRules ''P'' [witness_rule]]\<rparr>) \<and>
   remove_sg_port_rules failing_utils witness_driver ''P'' [witness_rule] =
     (Some (ProviderError ''remove failed''),
      witness_driver\<lparr>provider_calls := [RemoveRules ''P'' [witness_rule]]\<rparr>) \<and>
   add_sg_port_rules os_win_utils witness_driver ''P'' [witness_rule] =
     (None,
      witness_driver\<lparr>provider_calls := [CreateRules ''P'' [witness_rule]],
        sec_group_rules := [''P'' \<mapsto> [ConcreteRule witness_rule, ConcreteRule witness_rule]]\<rparr>) \<and>
   remove_sg_port_rules os_win_utils witness_driver ''P'' [witness_rule] =
     (None,
      witness_driver\<lparr>provider_calls := [RemoveRules ''P'' [witness_rule]],
        sec_group_rules := [''P'' \<mapsto> []]\<rparr>)"
proof -
  have ne: "[witness_rule] \<noteq> []" by simp
  have old: "sec_group_rules witness_driver ''P'' = Some [ConcreteRule witness_rule]"
    by (simp add: witness_driver_def)
  have calls: "provider_calls witness_driver = []"
    by (simp add: witness_driver_def init_driver_def)
  have maps: "sec_group_rules witness_driver = [''P'' \<mapsto> [ConcreteRule witness_rule]]"
    by (simp add: witness_driver_def)
  have f: "create_security_rules failing_utils [] ''P'' [witness_rule] = Some ''create failed''"
          "remove_security_rules failing_utils [] ''P'' [witness_rule] = Some ''remove failed''"
    by (simp_all add: failing_utils_def)
  have g: "create_security_rules os_win_utils [] ''P'' [witness_rule] = None"
          "remove_security_rules os_win_utils [] ''P'' [witness_rule] = None"
    by (simp_all add: os_win_utils_def)
  show ?thesis
    using batch_bookkeeping [OF ne old, of failing_utils]
          batch_bookkeeping [OF ne old, of os_win_utils]
    by (simp add: calls maps f g sg_eq_def)
qed

subsection \<open>What the lifecycle methods leave alone\<close>

lemma add_same_caches: "same_caches st (snd (add_sg_port_rules U st pid rs))"
  by (simp add: add_sg_port_rules_def same_caches_def Let_def split: option.splits)

lemma remove_same_caches: "same_caches st (snd (remove_sg_port_rules U st pid rs))"
  by (simp add: remove_sg_port_rules_def same_caches_def Let_def split: option.splits)

lemma create_port_rules_same_caches: "same_caches st (snd (create_port_rules U st pid rules))"
  by (auto simp add: create_port_rules_def Let_def split: sum.splits option.splits
      intro!: then_run_same_caches add_same_caches remove_same_caches)

lemma remove_port_rules_same_caches: "same_caches st (snd (remove_port_rules U st pid rules))"
  by (auto simp add: remove_port_rules_def split: sum.splits intro: remove_same_caches)

lemma new_device_same_caches: "same_caches st (snd (new_device U st p))"
proof -
  have "same_caches st (st\<lparr>sec_group_rules := (sec_group_rules st)(port_id p \<mapsto> [])\<rparr>)"
    by (simp add: same_caches_def)
  moreover have "same_caches (st\<lparr>sec_group_rules := (sec_group_rules st)(port_id p \<mapsto> [])\<rparr>)
                   (snd (new_device U st p))"
    unfolding new_device_def Let_def
    by (intro then_run_same_caches add_same_caches create_port_rules_same_caches)
  ultimately show ?thesis by (rule same_caches_trans)
qed

lemma select_same_caches:
  "sg_rule_templates st' = sg_rule_templates st \<Longrightarrow> sg_members st' = sg_members st \<Longrightarrow>
   select_sg_rules_for_port cidr st' p d = select_sg_rules_for_port cidr st p d"
  by (simp add: select_sg_rules_for_port_def)

lemma generate_rules_single:
  "generate_rules cidr st [p] =
     (case select_sg_rules_for_port cidr st p INGRESS_DIRECTION of
        Inl e \<Rightarrow> Inl e
      | Inr a \<Rightarrow>
          (case select_sg_rules_for_port cidr st p EGRESS_DIRECTION of
             Inl e \<Rightarrow> Inl e
           | Inr b \<Rightarrow> Inr [port_id p \<mapsto> a @ b]))"
  by (simp add: generate_rules_def split: sum.splits)

lemma create_port_rules_Nil:
  "sec_group_rules st pid = Some old \<Longrightarrow> create_port_rules U st pid [] = (None, st)"
  by (simp add: create_port_rules_def compute_new_rules_add_def add_sg_port_rules_def
      remove_sg_port_rules_def)

lemma remove_port_rules_Nil: "remove_port_rules U st pid [] = (None, st)"
  by (simp add: remove_port_rules_def remove_sg_port_rules_def)

lemma update_new_rules_same [simp]: "update_new_rules p p added (map AbstractRule added) = []"
  by (simp add: update_new_rules_def)

lemma update_remove_rules_same [simp]:
  "update_remove_rules p p added (map AbstractRule added) = []"
  by (simp add: update_remove_rules_def filter_empty_conv)

subsection \<open>The state after a lifecycle method that returned\<close>

lemma apply_group_rules_ok:
  assumes "fst (apply_group_rules U cidr s p) = None"
  shows "\<exists>a b. select_sg_rules_for_port cidr s p INGRESS_DIRECTION = Inr a \<and>
               select_sg_rules_for_port cidr s p EGRESS_DIRECTION = Inr b \<and>
               sec_group_rules (snd (apply_group_rules U cidr s p)) (port_id p) =
                 Some (map AbstractRule (a @ b)) \<and>
               security_ports (snd (apply_group_rules U cidr s p)) (device p) = Some p \<and>
               sg_rule_templates (snd (apply_group_rules U cidr s p)) = sg_rule_templates s \<and>
               sg_members (snd (apply_group_rules U cidr s p)) = sg_members s"
proof -
  obtain a where a: "select_sg_rules_for_port cidr s p INGRESS_DIRECTION = Inr a"
    using assms
    by (cases "select_sg_rules_for_port cidr s p INGRESS_DIRECTION")
       (simp_all add: apply_group_rules_def generate_rules_single)
  obtain b where b: "select_sg_rules_for_port cidr s p EGRESS_DIRECTION = Inr b"
    using assms a
    by (cases "select_sg_rules_for_port cidr s p EGRESS_DIRECTION")
       (simp_all add: apply_group_rules_def generate_rules_single)
  define s1 where "s1 = create_port_rules U s (port_id p) (map AbstractRule (a @ b))"
  have tail: "apply_group_rules U cidr s p = then_run s1 (\<lambda>st. (None,
                 st\<lparr>security_ports := (security_ports st)(device p \<mapsto> p),
                    sec_group_rules :=
                      (sec_group_rules st)(port_id p \<mapsto> map AbstractRule (a @ b))\<rparr>))"
    using a b by (simp add: apply_group_rules_def generate_rules_single s1_def)
  have ok1: "fst s1 = None"
    using assms unfolding tail by (simp add: then_run_ok)
  have c: "same_caches s (snd s1)"
    unfolding s1_def by (rule create_port_rules_same_caches)
  show ?thesis
    unfolding tail using a b c ok1 by (simp add: then_run_snd same_caches_def)
qed

lemma apply_group_rules_calls:
  "prefix (provider_calls s) (provider_calls (snd (apply_group_rules U cidr s p)))"
proof -
  have "prefix (provider_calls s)
          (provider_calls (snd (then_run (create_port_rules U s (port_id p) rs)
              (\<lambda>st. (None, st\<lparr>security_ports := (security_ports st)(device p \<mapsto> p),
                               sec_group_rules := (sec_group_rules st)(port_id p \<mapsto> es)\<rparr>)))))"
    for rs es
    using same_caches_calls [OF create_port_rules_same_caches [of s U "port_id p" rs]]
    by (cases "fst (create_port_rules U s (port_id p) rs)") (simp_all add: then_run_def)
  then show ?thesis
    by (simp add: apply_group_rules_def split: sum.splits option.splits)
qed

lemma prepare_port_filter_result:
  assumes ok: "fst (prepare_port_filter U cidr st p) = None"
  shows "\<exists>a b. select_sg_rules_for_port cidr st p INGRESS_DIRECTION = Inr a \<and>
               select_sg_rules_for_port cidr st p EGRESS_DIRECTION = Inr b \<and>
               sec_group_rules (snd (prepare_port_filter U cidr st p)) (port_id p) =
                 Some (map AbstractRule (a @ b)) \<and>
               security_ports (snd (prepare_port_filter U cidr st p)) (device p) = Some p \<and>
               sg_rule_templates (snd (prepare_port_filter U cidr st p)) = sg_rule_templates st \<and>
               sg_members (snd (prepare_port_filter U cidr st p)) = sg_members st"
proof -
  define r0 where
    "r0 = (if security_ports st (device p) = None then new_device U st p else (None, st))"
  have c0: "same_caches st (snd r0)"
    by (simp add: r0_def new_device_same_caches)
  have ok0: "fst r0 = None"
    using ok by (simp add: prepare_port_filter_def then_run_ok r0_def [symmetric])
  have t: "sg_rule_templates (snd r0) = sg_rule_templates st"
    and m: "sg_members (snd r0) = sg_members st"
    using c0 by (simp_all add: same_caches_def)
  show ?thesis
    using ok ok0 apply_group_rules_ok [of U cidr "snd r0" p]
    by (simp add: prepare_port_filter_def then_run_ok then_run_snd r0_def [symmetric]
        select_same_caches [OF t m] t m)
qed

lemma update_port_filter_result:
  assumes known: "security_ports st (device p) = Some old_port"
      and ok: "fst (update_port_filter U cidr st p) = None"
  shows "\<exists>a b. select_sg_rules_for_port cidr st p INGRESS_DIRECTION = Inr a \<and>
               select_sg_rules_for_port cidr st p EGRESS_DIRECTION = Inr b \<and>
               sec_group_rules (snd (update_port_filter U cidr st p)) (port_id p) =
                 Some (map AbstractRule (a @ b)) \<and>
               security_ports (snd (update_port_filter U cidr st p)) (device p) = Some p \<and>
               sg_rule_templates (snd (update_port_filter U cidr st p)) = sg_rule_templates st \<and>
               sg_members (snd (update_port_filter U cidr st p)) = sg_members st"
proof -
  obtain a where a: "select_sg_rules_for_port cidr st p INGRESS_DIRECTION = Inr a"
    using ok known
    by (cases "select_sg_rules_for_port cidr st p INGRESS_DIRECTION")
       (simp_all add: update_port_filter_def generate_rules_single)
  obtain b where b: "select_sg_rules_for_port cidr st p EGRESS_DIRECTION = Inr b"
    using ok known a
    by (cases "select_sg_rules_for_port cidr st p EGRESS_DIRECTION")
       (simp_all add: update_port_filter_def generate_rules_single)
  obtain kept where kept: "sec_group_rules st (port_id p) = Some kept"
    using ok known a b
    by (cases "sec_group_rules st (port_id p)")
       (simp_all add: update_port_filter_def generate_rules_single)
  define s1 where "s1 = create_port_rules U st (port_id p)
     (map AbstractRule (update_new_rules p old_port (a @ b) kept))"
  define s2 where "s2 = remove_port_rules U (snd s1) (port_id old_port)
     (update_remove_rules p old_port (a @ b) kept)"
  have upd: "update_port_filter U cidr st p =
     then_run s1 (\<lambda>st. then_run
        (remove_port_rules U st (port_id old_port) (update_remove_rules p old_port (a @ b) kept))
        (\<lambda>st. (None, st\<lparr>security_ports := (security_ports st)(device p \<mapsto> p),
                         sec_group_rules := (sec_group_rules st)(port_id p \<mapsto>
                                              map AbstractRule (a @ b))\<rparr>)))"
    using known a b kept
    by (simp add: update_port_filter_def generate_rules_single s1_def)
  have ok1: "fst s1 = None" and ok2: "fst s2 = None"
    using ok by (simp_all add: upd then_run_ok s2_def)
  have final: "snd (update_port_filter U cidr st p) =
     (snd s2)\<lparr>security_ports := (security_ports (snd s2))(device p \<mapsto> p),
              sec_group_rules := (sec_group_rules (snd s2))(port_id p \<mapsto>
                                   map AbstractRule (a @ b))\<rparr>"
    using ok1 ok2 by (simp add: upd then_run_snd s2_def)
  have c1: "same_caches st (snd s1)"
    unfolding s1_def by (rule create_port_rules_same_caches)
  have c2: "same_caches (snd s1) (snd s2)"
    unfolding s2_def by (rule remove_port_rules_same_caches)
  have c: "same_caches st (snd s2)"
    using c1 c2 by (rule same_caches_trans)
  show ?thesis
    using a b c by (simp add: final same_caches_def)
qed

lemma update_port_filter_unknown:
  "security_ports st (device p) = None \<Longrightarrow> update_port_filter U cidr st p = (None, st)"
  by (simp add: update_port_filter_def)

subsection \<open>The default rules come first\<close>

lemma new_device_calls:
  "prefix (provider_calls st @ [CreateRules (port_id p) (create_default_sg_rules U)])
          (provider_calls (snd (new_device U st p)))"
proof -
  define st0 where "st0 = st\<lparr>sec_group_rules := (sec_group_rules st)(port_id p \<mapsto> [])\<rparr>"
  have "provider_calls (snd (add_sg_port_rules U st0 (port_id p) (create_default_sg_rules U))) =
          provider_calls st @ [CreateRules (port_id p) (create_default_sg_rules U)]"
    by (simp add: add_sg_port_rules_def default_rules_not_empty st0_def Let_def
        split: option.splits)
  then have "prefix (provider_calls st @ [CreateRules (port_id p) (create_default_sg_rules U)])
          (provider_calls (snd (add_sg_port_rules U st0 (port_id p) (create_default_sg_rules U))))"
    by simp
  then show ?thesis
    unfolding new_device_def Let_def st0_def [symmetric]
    by (rule then_run_calls) (rule same_caches_calls [OF create_port_rules_same_caches])
qed

text \<open>
  Claim C2. When the device of the port is not among the remembered ports,
  \<^verbatim>\<open>prepare_port_filter\<close> calls \<^verbatim>\<open>create_security_rules\<close> for the port with the 16
  default rules before it makes any other call, whether or not the method goes on to
  return. None of the 16 rules is an allow rule (the allow and the deny action being
  different constants), so every call of the method that carries an allow rule for the
  port comes strictly later in the history.
\<close>

theorem baseline_created_first:
  assumes new: "security_ports st (device p) = None"
      and allow: "ACL_ACTION_ALLOW U \<noteq> ACL_ACTION_DENY U"
  shows "\<exists>rest. provider_calls (snd (prepare_port_filter U cidr st p)) =
                  provider_calls st @
                  CreateRules (port_id p) (create_default_sg_rules U) # rest \<and>
                length (create_default_sg_rules U) = 16 \<and>
                (\<forall>r \<in> set (create_default_sg_rules U). Action r \<noteq> ACL_ACTION_ALLOW U) \<and>
                (\<forall>i < length (CreateRules (port_id p) (create_default_sg_rules U) # rest).
                   (\<exists>rules r. (CreateRules (port_id p) (create_default_sg_rules U) # rest) ! i =
                                 CreateRules (port_id p) rules \<and>
                               r \<in> set rules \<and> Action r = ACL_ACTION_ALLOW U) \<longrightarrow>
                   0 < i)"
proof -
  let ?B = "CreateRules (port_id p) (create_default_sg_rules U)"
  have "prefix (provider_calls st @ [?B]) (provider_calls (snd (prepare_port_filter U cidr st p)))"
  proof -
    have "prepare_port_filter U cidr st p =
            then_run (new_device U st p) (\<lambda>st. apply_group_rules U cidr st p)"
      using new by (simp add: prepare_port_filter_def)
    then show ?thesis
      by (simp only:) (rule then_run_calls [OF new_device_calls apply_group_rules_calls])
  qed
  then obtain rest where
    rest: "provider_calls (snd (prepare_port_filter U cidr st p)) =
             (provider_calls st @ [?B]) @ rest"
    by (auto simp add: prefix_def)
  have deny: "\<forall>r \<in> set (create_default_sg_rules U). Action r \<noteq> ACL_ACTION_ALLOW U"
    using allow by (auto dest: default_rules_deny)
  have later: "0 < i"
    if "(?B # rest) ! i = CreateRules (port_id p) rules" "r \<in> set rules"
       "Action r = ACL_ACTION_ALLOW U" for i rules r
  proof (cases i)
    case 0
    with that deny show ?thesis by auto
  next
    case (Suc j)
    then show ?thesis by simp
  qed
  show ?thesis
    using rest deny default_rules_length later by (intro exI [of _ rest]) auto
qed

theorem baseline_created_first_witness:
  "security_ports scenario_driver (device scenario_port) = None \<and>
   ACL_ACTION_ALLOW os_win_utils \<noteq> ACL_ACTION_DENY os_win_utils \<and>
   hd (provider_calls (snd (prepare_port_filter os_win_utils host_cidr scenario_driver
         scenario_port))) =
     CreateRules ''P'' (create_default_sg_rules os_win_utils) \<and>
   provider_calls (snd (prepare_port_filter os_win_utils host_cidr scenario_driver
       scenario_port)) =
     [CreateRules ''P'' (create_default_sg_rules os_win_utils),
      CreateRules ''P'' [witness_rule]] \<and>
   Action witness_rule = ACL_ACTION_ALLOW os_win_utils"
proof -
  have h1: "security_ports scenario_driver (device scenario_port) = None"
    by (simp add: scenario_driver_def update_security_group_members_def
        update_security_group_rules_def init_driver_def)
  have h2: "ACL_ACTION_ALLOW os_win_utils \<noteq> ACL_ACTION_DENY os_win_utils"
    by (simp add: os_win_utils_def)
  have c0: "provider_calls scenario_driver = []"
    by (simp add: scenario_driver_def update_security_group_members_def
        update_security_group_rules_def init_driver_def)
  have pid: "port_id scenario_port = ''P''"
    by (simp add: scenario_port_def)
  have first: "hd (provider_calls (snd (prepare_port_filter os_win_utils host_cidr
                  scenario_driver scenario_port))) =
               CreateRules ''P'' (create_default_sg_rules os_win_utils)"
    using baseline_created_first [OF h1 h2, of host_cidr] by (auto simp add: c0 pid)
  have run: "provider_calls (snd (prepare_port_filter os_win_utils host_cidr scenario_driver
                scenario_port)) =
             [CreateRules ''P'' (create_default_sg_rules os_win_utils),
              CreateRules ''P'' [witness_rule]]"
    by code_simp
  have a: "Action witness_rule = ACL_ACTION_ALLOW os_win_utils"
    by (simp add: witness_rule_def SecurityGroupRuleR2_def Let_def os_win_utils_def)
  show ?thesis
    using h1 h2 first run a by (intro conjI) assumption+
qed

subsection \<open>The list kept for a port\<close>

text \<open>
  Claim C1: after a lifecycle method has returned, the list kept in \<^verbatim>\<open>_sec_group_rules\<close>
  for the port id is the set of rule objects generated from the selector's output and
  from the provider rules of the port. The driver does not keep that. The port of the
  scenario, with one provider rule, is prepared on a driver that has never seen its
  device, and the method returns. \<^verbatim>\<open>_add_sg_port_rules\<close> has by then appended the rule
  objects it created to the list, and \<^verbatim>\<open>_create_port_rules\<close> has compared new rule
  objects with it; the last statement of \<^verbatim>\<open>prepare_port_filter\<close> overwrites the list
  with the rule dicts of the selector. What is kept is one rule dict, where the rule set
  of the specification holds two rule objects, the one generated from that dict and the
  one generated from the provider rule.
\<close>

theorem kept_list_is_not_applied_rule_set:
  "fst (prepare_port_filter os_win_utils host_cidr scenario_driver provider_port) = None \<and>
   sec_group_rules
     (snd (prepare_port_filter os_win_utils host_cidr scenario_driver provider_port))
     (port_id provider_port) =
     Some [AbstractRule (group_template\<lparr>source_ip_prefix := Some ''10.0.0.2/32'',
                                         security_group_id := Some ''A''\<rparr>)] \<and>
   spec_applied_rules os_win_utils host_cidr
     (snd (prepare_port_filter os_win_utils host_cidr scenario_driver provider_port))
     provider_port =
     Inr [witness_rule,
          SecurityGroupRuleR2 os_win_utils 2 ''53-53'' ''udp'' ''0.0.0.0/0'' 1] \<and>
   \<not> spec_applied_rule_set_kept os_win_utils host_cidr
       (snd (prepare_port_filter os_win_utils host_cidr scenario_driver provider_port))
       provider_port"
proof -
  have ok: "fst (prepare_port_filter os_win_utils host_cidr scenario_driver provider_port) = None"
    by code_simp
  have kept: "sec_group_rules
     (snd (prepare_port_filter os_win_utils host_cidr scenario_driver provider_port))
     (port_id provider_port) =
     Some [AbstractRule (group_template\<lparr>source_ip_prefix := Some ''10.0.0.2/32'',
                                         security_group_id := Some ''A''\<rparr>)]"
    by code_simp
  have spec: "spec_applied_rules os_win_utils host_cidr
     (snd (prepare_port_filter os_win_utils host_cidr scenario_driver provider_port))
     provider_port =
     Inr [witness_rule,
          SecurityGroupRuleR2 os_win_utils 2 ''53-53'' ''udp'' ''0.0.0.0/0'' 1]"
    by code_simp
  have differ: "\<not> spec_applied_rule_set_kept os_win_utils host_cidr
       (snd (prepare_port_filter os_win_utils host_cidr scenario_driver provider_port))
       provider_port"
    unfolding spec_applied_rule_set_kept_def spec kept by auto
  show ?thesis
    using ok kept spec differ by (intro conjI) assumption+
qed

text \<open>
  What the last statement of \<^verbatim>\<open>prepare_port_filter\<close> and of \<^verbatim>\<open>update_port_filter\<close>
  leaves in the list, whenever the method returns (for \<^verbatim>\<open>update_port_filter\<close>, with a
  remembered device): the rule dicts that the selector emits for the port, the ingress
  rules followed by the egress rules.
\<close>

lemma lifecycle_keeps_selected_rules:
  "(fst (prepare_port_filter U cidr st p) = None \<longrightarrow>
      (\<exists>a b. select_sg_rules_for_port cidr (snd (prepare_port_filter U cidr st p)) p
                INGRESS_DIRECTION = Inr a \<and>
              select_sg_rules_for_port cidr (snd (prepare_port_filter U cidr st p)) p
                EGRESS_DIRECTION = Inr b \<and>
              sec_group_rules (snd (prepare_port_filter U cidr st p)) (port_id p) =
                Some (map AbstractRule (a @ b)))) \<and>
   (security_ports st (device p) \<noteq> None \<longrightarrow> fst (update_port_filter U cidr st p) = None \<longrightarrow>
      (\<exists>a b. select_sg_rules_for_port cidr (snd (update_port_filter U cidr st p)) p
                INGRESS_DIRECTION = Inr a \<and>
              select_sg_rules_for_port cidr (snd (update_port_filter U cidr st p)) p
                EGRESS_DIRECTION = Inr b \<and>
              sec_group_rules (snd (update_port_filter U cidr st p)) (port_id p) =
                Some (map AbstractRule (a @ b))))"
proof (intro conjI impI)
  assume ok: "fst (prepare_port_filter U cidr st p) = None"
  from prepare_port_filter_result [OF ok] obtain a b where
    r: "select_sg_rules_for_port cidr st p INGRESS_DIRECTION = Inr a"
       "select_sg_rules_for_port cidr st p EGRESS_DIRECTION = Inr b"
       "sec_group_rules (snd (prepare_port_filter U cidr st p)) (port_id p) =
          Some (map AbstractRule (a @ b))"
       "sg_rule_templates (snd (prepare_port_filter U cidr st p)) = sg_rule_templates st"
       "sg_members (snd (prepare_port_filter U cidr st p)) = sg_members st"
    by blast
  show "\<exists>a b. select_sg_rules_for_port cidr (snd (prepare_port_filter U cidr st p)) p
                INGRESS_DIRECTION = Inr a \<and>
              select_sg_rules_for_port cidr (snd (prepare_port_filter U cidr st p)) p
                EGRESS_DIRECTION = Inr b \<and>
              sec_group_rules (snd (prepare_port_filter U cidr st p)) (port_id p) =
                Some (map AbstractRule (a @ b))"
    using r(1-3) by (simp only: select_same_caches [OF r(4) r(5)]) blast
next
  assume known: "security_ports st (device p) \<noteq> None"
    and ok: "fst (update_port_filter U cidr st p) = None"
  from known obtain old_port where old: "security_ports st (device p) = Some old_port"
    by blast
  from update_port_filter_result [OF old ok] obtain a b where
    r: "select_sg_rules_for_port cidr st p INGRESS_DIRECTION = Inr a"
       "select_sg_rules_for_port cidr st p EGRESS_DIRECTION = Inr b"
       "sec_group_rules (snd (update_port_filter U cidr st p)) (port_id p) =
          Some (map AbstractRule (a @ b))"
       "sg_rule_templates (snd (update_port_filter U cidr st p)) = sg_rule_templates st"
       "sg_members (snd (update_port_filter U cidr st p)) = sg_members st"
    by blast
  show "\<exists>a b. select_sg_rules_for_port cidr (snd (update_port_filter U cidr st p)) p
                INGRESS_DIRECTION = Inr a \<and>
              select_sg_rules_for_port cidr (snd (update_port_filter U cidr st p)) p
                EGRESS_DIRECTION = Inr b \<and>
              sec_group_rules (snd (update_port_filter U cidr st p)) (port_id p) =
                Some (map AbstractRule (a @ b))"
    using r(1-3) by (simp only: select_same_caches [OF r(4) r(5)]) blast
qed

lemma lifecycle_keeps_selected_rules_example:
  "fst (prepare_port_filter os_win_utils host_cidr scenario_driver provider_port) = None \<and>
   sec_group_rules
     (snd (prepare_port_filter os_win_utils host_cidr scenario_driver provider_port))
     (port_id provider_port) =
     Some [AbstractRule (group_template\<lparr>source_ip_prefix := Some ''10.0.0.2/32'',
                                         security_group_id := Some ''A''\<rparr>)] \<and>
   security_ports prepared_driver (device provider_port) \<noteq> None \<and>
   fst (update_port_filter os_win_utils host_cidr prepared_driver provider_port) = None \<and>
   sec_group_rules
     (snd (update_port_filter os_win_utils host_cidr prepared_driver provider_port))
     (port_id provider_port) =
     Some [AbstractRule (group_template\<lparr>source_ip_prefix := Some ''10.0.0.2/32'',
                                         security_group_id := Some ''A''\<rparr>)]"
proof -
  let ?sel = "group_template\<lparr>source_ip_prefix := Some ''10.0.0.2/32'',
                             security_group_id := Some ''A''\<rparr>"
  let ?s1 = "snd (prepare_port_filter os_win_utils host_cidr scenario_driver provider_port)"
  let ?s2 = "snd (update_port_filter os_win_utils host_cidr prepared_driver provider_port)"
  have ok1: "fst (prepare_port_filter os_win_utils host_cidr scenario_driver provider_port) = None"
    by code_simp
  have known: "security_ports prepared_driver (device provider_port) \<noteq> None"
    by code_simp
  have ok2: "fst (update_port_filter os_win_utils host_cidr prepared_driver provider_port) = None"
    by code_simp
  have in1: "select_sg_rules_for_port host_cidr ?s1 provider_port INGRESS_DIRECTION = Inr [?sel]"
    and out1: "select_sg_rules_for_port host_cidr ?s1 provider_port EGRESS_DIRECTION = Inr []"
    and in2: "select_sg_rules_for_port host_cidr ?s2 provider_port INGRESS_DIRECTION = Inr [?sel]"
    and out2: "select_sg_rules_for_port host_cidr ?s2 provider_port EGRESS_DIRECTION = Inr []"
    by code_simp+
  have kept1: "sec_group_rules ?s1 (port_id provider_port) = Some [AbstractRule ?sel]"
    using lifecycle_keeps_selected_rules
            [of os_win_utils host_cidr scenario_driver provider_port] ok1 in1 out1
    by auto
  have kept2: "sec_group_rules ?s2 (port_id provider_port) = Some [AbstractRule ?sel]"
    using lifecycle_keeps_selected_rules
            [of os_win_utils host_cidr prepared_driver provider_port] known ok2 in2 out2
    by auto
  show ?thesis
    using ok1 kept1 known ok2 kept2 by (intro conjI) assumption+
qed

text \<open>
  The methods that read the list afterwards take it for a list of rule objects. A rule
  object is never equal to a rule dict, so \<^verbatim>\<open>compute_new_rules_add\<close> finds every rule
  new: preparing the same port again creates the allow rule a second time.
\<close>

lemma second_prepare_creates_again:
  "fst (prepare_port_filter os_win_utils host_cidr prepared_driver scenario_port) = None \<and>
   provider_calls prepared_driver =
     [CreateRules ''P'' (create_default_sg_rules os_win_utils),
      CreateRules ''P'' [witness_rule]] \<and>
   provider_calls
     (snd (prepare_port_filter os_win_utils host_cidr prepared_driver scenario_port)) =
     provider_calls prepared_driver @ [CreateRules ''P'' [witness_rule]]"
  by code_simp

subsection \<open>Updating twice\<close>

text \<open>
  When \<^verbatim>\<open>update_port_filter\<close> has returned for a port, a second call with the same
  port, the caches being what they were, returns and leaves the driver as the first call
  left it: the history of calls on the utilities object is the same, so nothing is
  created and nothing is removed. When the device is remembered, the two lists that the
  second call builds, \<^verbatim>\<open>new_rules\<close> and \<^verbatim>\<open>remove_rules\<close>, are empty.
\<close>

lemma update_twice_is_empty:
  assumes ok: "fst (update_port_filter U cidr st p) = None"
  shows "update_port_filter U cidr (snd (update_port_filter U cidr st p)) p =
           (None, snd (update_port_filter U cidr st p)) \<and>
         (\<forall>old a b kept.
            security_ports (snd (update_port_filter U cidr st p)) (device p) = Some old \<and>
            select_sg_rules_for_port cidr (snd (update_port_filter U cidr st p)) p
              INGRESS_DIRECTION = Inr a \<and>
            select_sg_rules_for_port cidr (snd (update_port_filter U cidr st p)) p
              EGRESS_DIRECTION = Inr b \<and>
            sec_group_rules (snd (update_port_filter U cidr st p)) (port_id p) = Some kept \<longrightarrow>
            update_new_rules p old (a @ b) kept = [] \<and>
            update_remove_rules p old (a @ b) kept = [])"
proof (cases "security_ports st (device p)")
  case None
  then show ?thesis by (simp add: update_port_filter_unknown)
next
  case (Some old_port)
  define st1 where "st1 = snd (update_port_filter U cidr st p)"
  from update_port_filter_result [OF Some ok] obtain a b where
    a: "select_sg_rules_for_port cidr st p INGRESS_DIRECTION = Inr a" and
    b: "select_sg_rules_for_port cidr st p EGRESS_DIRECTION = Inr b" and
    kept: "sec_group_rules st1 (port_id p) = Some (map AbstractRule (a @ b))" and
    dev: "security_ports st1 (device p) = Some p" and
    t: "sg_rule_templates st1 = sg_rule_templates st" and
    m: "sg_members st1 = sg_members st"
    unfolding st1_def by blast
  have a1: "select_sg_rules_for_port cidr st1 p INGRESS_DIRECTION = Inr a"
    using a select_same_caches [OF t m] by simp
  have b1: "select_sg_rules_for_port cidr st1 p EGRESS_DIRECTION = Inr b"
    using b select_same_caches [OF t m] by simp
  have same: "st1\<lparr>security_ports := (security_ports st1)(device p \<mapsto> p),
                  sec_group_rules := (sec_group_rules st1)(port_id p \<mapsto>
                                       map AbstractRule (a @ b))\<rparr> = st1"
    using kept dev by (simp add: map_upd_triv del: map_append)
  have again: "update_port_filter U cidr st1 p = (None, st1)"
    using a1 b1 kept dev same
    by (simp add: update_port_filter_def generate_rules_single create_port_rules_Nil
        remove_port_rules_Nil del: map_append)
  have batches: "update_new_rules p old (a' @ b') kept' = [] \<and>
                 update_remove_rules p old (a' @ b') kept' = []"
    if "security_ports st1 (device p) = Some old"
       "select_sg_rules_for_port cidr st1 p INGRESS_DIRECTION = Inr a'"
       "select_sg_rules_for_port cidr st1 p EGRESS_DIRECTION = Inr b'"
       "sec_group_rules st1 (port_id p) = Some kept'" for old a' b' kept'
  proof -
    have "old = p" "a' = a" "b' = b" "kept' = map AbstractRule (a @ b)"
      using that a1 b1 kept dev by simp_all
    then show ?thesis by (simp del: map_append)
  qed
  show ?thesis
    using again batches unfolding st1_def by blast
qed

lemma update_twice_is_empty_example:
  "fst (update_port_filter os_win_utils host_cidr prepared_driver provider_port) = None \<and>
   provider_calls (snd (update_port_filter os_win_utils host_cidr prepared_driver provider_port)) =
     [CreateRules ''P'' (create_default_sg_rules os_win_utils),
      CreateRules ''P'' [witness_rule],
      CreateRules ''P'' [SecurityGroupRuleR2 os_win_utils 2 ''53-53'' ''udp'' ''0.0.0.0/0'' 1]] \<and>
   update_port_filter os_win_utils host_cidr
     (snd (update_port_filter os_win_utils host_cidr prepared_driver provider_port))
     provider_port =
     (None, snd (update_port_filter os_win_utils host_cidr prepared_driver provider_port)) \<and>
   security_ports
     (snd (update_port_filter os_win_utils host_cidr prepared_driver provider_port))
     (device provider_port) = Some provider_port \<and>
   update_new_rules provider_port provider_port
     ([group_template\<lparr>source_ip_prefix := Some ''10.0.0.2/32'',
                       security_group_id := Some ''A''\<rparr>] @ [])
     [AbstractRule (group_template\<lparr>source_ip_prefix := Some ''10.0.0.2/32'',
                                   security_group_id := Some ''A''\<rparr>)] = [] \<and>
   update_remove_rules provider_port provider_port
     ([group_template\<lparr>source_ip_prefix := Some ''10.0.0.2/32'',
                       security_group_id := Some ''A''\<rparr>] @ [])
     [AbstractRule (group_template\<lparr>source_ip_prefix := Some ''10.0.0.2/32'',
                                   security_group_id := Some ''A''\<rparr>)] = []"
proof -
  let ?sel = "group_template\<lparr>source_ip_prefix := Some ''10.0.0.2/32'',
                             security_group_id := Some ''A''\<rparr>"
  let ?s2 = "snd (update_port_filter os_win_utils host_cidr prepared_driver provider_port)"
  have ok: "fst (update_port_filter os_win_utils host_cidr prepared_driver provider_port) = None"
    by code_simp
  have calls: "provider_calls ?s2 =
     [CreateRules ''P'' (create_default_sg_rules os_win_utils),
      CreateRules ''P'' [witness_rule],
      CreateRules ''P'' [SecurityGroupRuleR2 os_win_utils 2 ''53-53'' ''udp'' ''0.0.0.0/0'' 1]]"
    by code_simp
  have dev: "security_ports ?s2 (device provider_port) = Some provider_port"
    by code_simp
  have sel_in: "select_sg_rules_for_port host_cidr ?s2 provider_port INGRESS_DIRECTION = Inr [?sel]"
    and sel_out: "select_sg_rules_for_port host_cidr ?s2 provider_port EGRESS_DIRECTION = Inr []"
    and kept: "sec_group_rules ?s2 (port_id provider_port) = Some [AbstractRule ?sel]"
    by code_simp+
  note twice = update_twice_is_empty [OF ok]
  have again: "update_port_filter os_win_utils host_cidr ?s2 provider_port = (None, ?s2)"
    using twice by (elim conjE) assumption
  have batches: "update_new_rules provider_port provider_port ([?sel] @ [])
                   [AbstractRule ?sel] = [] \<and>
                 update_remove_rules provider_port provider_port ([?sel] @ [])
                   [AbstractRule ?sel] = []"
    using twice dev sel_in sel_out kept by blast
  show ?thesis
    using ok calls again dev batches by (intro conjI) (elim conjE, assumption)+
qed

text \<open>\<^verbatim>\<open>update_port_filter\<close> never writes the two caches, whether it returns or raises.\<close>

lemma create_port_rules_caches [simp]:
  "sg_rule_templates (snd (create_port_rules U st pid rules)) = sg_rule_templates st"
  "sg_members (snd (create_port_rules U st pid rules)) = sg_members st"
  using create_port_rules_same_caches [of st U pid rules] by (simp_all add: same_caches_def)

lemma remove_port_rules_caches [simp]:
  "sg_rule_templates (snd (remove_port_rules U st pid rules)) = sg_rule_templates st"
  "sg_members (snd (remove_port_rules U st pid rules)) = sg_members st"
  using remove_port_rules_same_caches [of st U pid rules] by (simp_all add: same_caches_def)

lemma update_port_filter_caches:
  "sg_rule_templates (snd (update_port_filter U cidr st p)) = sg_rule_templates st \<and>
   sg_members (snd (update_port_filter U cidr st p)) = sg_members st"
  by (simp add: update_port_filter_def then_run_def Let_def split: option.splits sum.splits)

text \<open>
  Claim C8: two consecutive calls of \<^verbatim>\<open>update_port_filter\<close> with the same port and the
  same caches leave nothing to create or remove for the second call. The driver breaks
  this whenever the first call has a rule to remove. The port of the scenario was
  prepared, then group \<^verbatim>\<open>'A'\<close> lost its template. The first update has the utilities
  object remove the allow rule, which returns; \<^verbatim>\<open>old_sg_rules.remove(rule)\<close> then looks
  for the rule object in a list of rule dicts and raises \<^verbatim>\<open>ValueError\<close>, so the method
  never reaches the statements that record the port and its rules. Caches and port are
  what they were, and the second update sends the same removal again.
\<close>

theorem failed_update_removes_again:
  "fst (update_port_filter os_win_utils host_cidr emptied_driver scenario_port) =
     Some ValueError \<and>
   provider_calls (snd (update_port_filter os_win_utils host_cidr emptied_driver scenario_port)) =
     provider_calls emptied_driver @ [RemoveRules ''P'' [witness_rule]] \<and>
   sg_rule_templates
     (snd (update_port_filter os_win_utils host_cidr emptied_driver scenario_port)) =
     sg_rule_templates emptied_driver \<and>
   sg_members (snd (update_port_filter os_win_utils host_cidr emptied_driver scenario_port)) =
     sg_members emptied_driver \<and>
   security_ports
     (snd (update_port_filter os_win_utils host_cidr emptied_driver scenario_port))
     (device scenario_port) = Some scenario_port \<and>
   fst (update_port_filter os_win_utils host_cidr
          (snd (update_port_filter os_win_utils host_cidr emptied_driver scenario_port))
          scenario_port) = Some ValueError \<and>
   provider_calls
     (snd (update_port_filter os_win_utils host_cidr
             (snd (update_port_filter os_win_utils host_cidr emptied_driver scenario_port))
             scenario_port)) =
     provider_calls emptied_driver @
     [RemoveRules ''P'' [witness_rule], RemoveRules ''P'' [witness_rule]]"
proof -
  let ?s1 = "snd (update_port_filter os_win_utils host_cidr emptied_driver scenario_port)"
  have e1: "fst (update_port_filter os_win_utils host_cidr emptied_driver scenario_port) =
              Some ValueError"
    by code_simp
  have c1: "provider_calls ?s1 =
              provider_calls emptied_driver @ [RemoveRules ''P'' [witness_rule]]"
    by code_simp
  have d1: "security_ports ?s1 (device scenario_port) = Some scenario_port"
    by code_simp
  have e2: "fst (update_port_filter os_win_utils host_cidr ?s1 scenario_port) = Some ValueError"
    by code_simp
  have c2: "provider_calls (snd (update_port_filter os_win_utils host_cidr ?s1 scenario_port)) =
              provider_calls emptied_driver @
              [RemoveRules ''P'' [witness_rule], RemoveRules ''P'' [witness_rule]]"
    by code_simp
  note caches = update_port_filter_caches [of os_win_utils host_cidr emptied_driver scenario_port]
  show ?thesis
    using e1 c1 caches d1 e2 c2 by (intro conjI) (elim conjE, assumption)+
qed

end
